theory Spec2Isabelle
  imports Complex_Main "HOL-Library.Word"
begin

section \<open>sparkx-admin: a shallow embedding of the page logic\<close>

text \<open>
  The repository is a React single-page application. Each page is one TypeScript module
  holding API wrapper functions around \<^verbatim>\<open>fetch\<close> and event handlers that read the
  component state of the current render and issue state updates. The embedding keeps
  that shape:
  \<^item> a TypeScript interface is a record, a union of literals a datatype;
  \<^item> a thrown value is the left summand of \<open>thrown + 'a\<close>, so every \<^verbatim>\<open>try\<close>/\<^verbatim>\<open>catch\<close>
    is a case distinction of the model;
  \<^item> the browser (\<^verbatim>\<open>fetch\<close>, \<^verbatim>\<open>JSON.parse\<close>, \<^verbatim>\<open>crypto.subtle.digest\<close>, the two
    storages) is a record of functions, the environment \<open>env\<close>;
  \<^item> a handler is a function from the environment and the state of the render it was
    created in to the state after all its updates, with a log of the wrappers it
    invoked.

  Strings are \<open>string\<close>: a JavaScript string whose code units are below 256. Numbers that
  the code treats as integers (ids, sizes, page numbers, status codes) are \<open>int\<close>; the
  two prices of an LLM model are \<open>rat\<close>. Rounding of large integers to doubles is not
  modelled.
\<close>

subsection \<open>JavaScript strings\<close>

text \<open>
  \<^verbatim>\<open>String.prototype.trim\<close> removes white space and line terminators from both ends.
  Below code unit 256 these are TAB, LF, VT, FF, CR, SPACE and NBSP.
\<close>

definition is_ws :: "char \<Rightarrow> bool" where
  "is_ws c = (c \<in> set [CHR 0x09, CHR 0x0A, CHR 0x0B, CHR 0x0C, CHR 0x0D, CHR 0x20, CHR 0xA0])"

definition trim :: "string \<Rightarrow> string" where
  "trim s = rev (dropWhile is_ws (rev (dropWhile is_ws s)))"

text \<open>\<^verbatim>\<open>toLowerCase\<close> on code units below 256: A-Z and the capital letters of Latin-1.\<close>

definition toLowerCase_char :: "char \<Rightarrow> char" where
  "toLowerCase_char c =
     (let n = (of_char c :: nat) in
      if (0x41 \<le> n \<and> n \<le> 0x5A) \<or> (0xC0 \<le> n \<and> n \<le> 0xDE \<and> n \<noteq> 0xD7)
      then char_of (n + 0x20) else c)"

definition toLowerCase :: "string \<Rightarrow> string" where
  "toLowerCase s = map toLowerCase_char s"

text \<open>\<^verbatim>\<open>s.split('.')\<close>: the pieces between the dots; the empty string gives one empty piece.\<close>

fun split_dot :: "string \<Rightarrow> string list" where
  "split_dot [] = [[]]"
| "split_dot (c # cs) =
     (if c = CHR ''.'' then [] # split_dot cs
      else (case split_dot cs of [] \<Rightarrow> [[c]] | p # ps \<Rightarrow> (c # p) # ps))"

text \<open>
  Digits of a natural number in radix 10 and 16, as \<^verbatim>\<open>String(n)\<close> and
  \<^verbatim>\<open>n.toString(16)\<close> print an integer.
\<close>

definition digit_char :: "nat \<Rightarrow> char" where
  "digit_char d = ''0123456789abcdef'' ! d"

fun toString10 :: "nat \<Rightarrow> string" where
  "toString10 n =
     (if n < 10 then [digit_char n] else toString10 (n div 10) @ [digit_char (n mod 10)])"

fun toString16 :: "nat \<Rightarrow> string" where
  "toString16 n =
     (if n < 16 then [digit_char n] else toString16 (n div 16) @ [digit_char (n mod 16)])"

declare toString10.simps [simp del]
declare toString16.simps [simp del]

definition String_of_int :: "int \<Rightarrow> string" where
  "String_of_int i = (if i < 0 then CHR ''-'' # toString10 (nat (- i)) else toString10 (nat i))"

definition padStart2 :: "string \<Rightarrow> string" where
  \<comment> \<open>\<^verbatim>\<open>s.padStart(2, '0')\<close>\<close>
  "padStart2 s = replicate (2 - length s) CHR ''0'' @ s"

text \<open>
  \<^verbatim>\<open>parseInt(s, 10)\<close>: leading white space is skipped, a sign is read, then the longest
  run of decimal digits; \<open>None\<close> is \<^verbatim>\<open>NaN\<close> (no digit).
\<close>

definition is_digit :: "char \<Rightarrow> bool" where
  "is_digit c = (c \<in> set ''0123456789'')"

definition digits_value :: "string \<Rightarrow> nat" where
  "digits_value ds = foldl (\<lambda>acc c. 10 * acc + (of_char c - of_char CHR ''0'')) 0 ds"

definition parseInt :: "string \<Rightarrow> int option" where
  "parseInt s =
     (let t = dropWhile is_ws s;
          neg = (case t of [] \<Rightarrow> False | c # _ \<Rightarrow> c = CHR ''-'');
          r = (case t of [] \<Rightarrow> [] | c # r' \<Rightarrow> if c = CHR ''-'' \<or> c = CHR ''+'' then r' else t);
          ds = takeWhile is_digit r
      in if ds = [] then None
         else Some (if neg then - int (digits_value ds) else int (digits_value ds)))"

subsection \<open>Thrown values and results\<close>

text \<open>
  A thrown value is an \<^verbatim>\<open>Error\<close> instance with its message, or anything else. A
  computation that may throw returns \<open>thrown + 'a\<close>.
\<close>

datatype thrown = ErrorObj string | NonError

type_synonym 'a exn = "thrown + 'a"

definition try_catch :: "'a exn \<Rightarrow> (thrown \<Rightarrow> 'a exn) \<Rightarrow> 'a exn" where
  "try_catch body handler = (case body of Inl e \<Rightarrow> handler e | Inr x \<Rightarrow> Inr x)"

text \<open>
  The user interface is in Chinese. A text shown to the user is a string value carried
  as it is (\<open>Literal\<close>), or one of the literals and templates of the source, named here
  by its meaning:
  \<^item> \<open>Zh_name_empty\<close>: "template name must not be empty";
  \<^item> \<open>Zh_preupload_failed m\<close>: the template "pre-upload failed: " followed by \<open>m\<close>;
  \<^item> \<open>Zh_upload_failed m\<close>: the template "upload failed: " followed by \<open>m\<close>;
  \<^item> \<open>Zh_upload_error\<close>: "an error occurred while uploading the file";
  \<^item> \<open>Zh_created\<close>, \<open>Zh_updated\<close>: "template created" and "template updated".
\<close>

datatype ui_text =
    Literal string
  | Zh_name_empty
  | Zh_preupload_failed ui_text
  | Zh_upload_failed ui_text
  | Zh_upload_error
  | Zh_created
  | Zh_updated

text \<open>The result of a wrapper: \<^verbatim>\<open>{ ok: true, data }\<close> or \<^verbatim>\<open>{ ok: false, message }\<close>.\<close>

datatype 'a api_result = Ok 'a | Fail ui_text

subsection \<open>JSON values and the error decoder\<close>

datatype json =
    JNull | JBool bool | JNum rat | JStr string | JArr "json list"
  | JObj "(string \<times> json) list"

text \<open>
  Reading the property \<^verbatim>\<open>message\<close> or \<^verbatim>\<open>msg\<close> of a parsed value: \<^verbatim>\<open>null\<close> throws a
  \<^verbatim>\<open>TypeError\<close>, an object gives its own property (an association list with each key
  once), every other value gives \<^verbatim>\<open>undefined\<close> (\<open>None\<close>).
\<close>

definition get_prop :: "json \<Rightarrow> string \<Rightarrow> json option exn" where
  "get_prop v k =
     (case v of
        JNull \<Rightarrow> Inl (ErrorObj ''Cannot read properties of null'')
      | JObj kvs \<Rightarrow> Inr (map_of kvs k)
      | _ \<Rightarrow> Inr None)"

definition nonblank_string :: "json option \<Rightarrow> bool" where
  \<comment> \<open>\<^verbatim>\<open>typeof v === 'string' && v.trim()\<close>\<close>
  "nonblank_string v = (case v of Some (JStr s) \<Rightarrow> trim s \<noteq> [] | _ \<Rightarrow> False)"

definition the_string :: "json option \<Rightarrow> string" where
  "the_string v = (case v of Some (JStr s) \<Rightarrow> s | _ \<Rightarrow> [])"

text \<open>
  A \<^verbatim>\<open>Response\<close>: \<open>resp_text\<close> is what \<^verbatim>\<open>response.text()\<close> settles to and \<open>resp_json\<close>
  what \<^verbatim>\<open>response.json()\<close> settles to, read at the type the source casts it to.
\<close>

record 'd response =
  resp_ok :: bool
  resp_status :: int
  resp_statusText :: string
  resp_text :: "string exn"
  resp_json :: "'d exn"

text \<open>
  \<^verbatim>\<open>parseApiErrorMessage\<close> as LoginPage.tsx and SoftwareTemplatesPage.tsx have it (the two
  copies are the same text). The first argument is \<^verbatim>\<open>JSON.parse\<close>, \<open>None\<close> where it
  throws a \<^verbatim>\<open>SyntaxError\<close>. Inside the \<^verbatim>\<open>try\<close> the result is \<open>Some m\<close> for a
  \<^verbatim>\<open>return m\<close> and \<open>None\<close> for falling through; the \<^verbatim>\<open>catch\<close> falls through too.
\<close>

definition parseApiErrorMessage :: "(string \<Rightarrow> json option) \<Rightarrow> 'd response \<Rightarrow> string exn" where
  "parseApiErrorMessage JSON_parse response =
     (case resp_text response of
        Inl e \<Rightarrow> Inl e
      | Inr txt \<Rightarrow>
          if txt = [] then Inr ''Request failed''
          else
            (case (case JSON_parse txt of
                     None \<Rightarrow> None
                   | Some parsed \<Rightarrow>
                       (case get_prop parsed ''message'' of
                          Inl e \<Rightarrow> None
                        | Inr message \<Rightarrow>
                            if nonblank_string message then Some (the_string message)
                            else (case get_prop parsed ''msg'' of
                                    Inl e \<Rightarrow> None
                                  | Inr msg \<Rightarrow>
                                      if nonblank_string msg then Some (the_string msg)
                                      else None)))
             of Some m \<Rightarrow> Inr m
              | None \<Rightarrow>
                  (let normalized = trim txt in
                   Inr (if normalized \<noteq> [] then normalized else ''Request failed''))))"


text \<open>
  The copy in LlmManagementPage.tsx assigns to \<^verbatim>\<open>extractedMessage\<close> instead of
  returning: the two \<^verbatim>\<open>if\<close>s run one after the other, so a non-blank \<^verbatim>\<open>msg\<close> overwrites
  a non-blank \<^verbatim>\<open>message\<close>; the \<^verbatim>\<open>catch\<close> resets the variable to \<^verbatim>\<open>null\<close>. An extracted
  message is returned when it is truthy.
\<close>

definition parseApiErrorMessage_llm :: "(string \<Rightarrow> json option) \<Rightarrow> 'd response \<Rightarrow> string exn" where
  "parseApiErrorMessage_llm JSON_parse response =
     (case resp_text response of
        Inl e \<Rightarrow> Inl e
      | Inr txt \<Rightarrow>
          if txt = [] then Inr ''Request failed''
          else
            (let extractedMessage =
               (case JSON_parse txt of
                  None \<Rightarrow> None
                | Some parsed \<Rightarrow>
                    (case get_prop parsed ''message'' of
                       Inl e \<Rightarrow> None
                     | Inr message \<Rightarrow>
                         (let extracted1 =
                                (if nonblank_string message then Some (the_string message)
                                 else None)
                          in case get_prop parsed ''msg'' of
                               Inl e \<Rightarrow> None
                             | Inr msg \<Rightarrow>
                                 if nonblank_string msg then Some (the_string msg)
                                 else extracted1)))
             in case extractedMessage of
                  Some m \<Rightarrow> if m \<noteq> [] then Inr m
                            else Inr (if trim txt \<noteq> [] then trim txt else ''Request failed'')
                | None \<Rightarrow> Inr (if trim txt \<noteq> [] then trim txt else ''Request failed'')))"

subsection \<open>File category\<close>

definition imageExts :: "string list" where
  "imageExts = [''png'', ''jpg'', ''jpeg'', ''gif'', ''bmp'', ''webp'', ''svg'']"

definition videoExts :: "string list" where
  "videoExts = [''mp4'', ''avi'', ''mov'', ''wmv'', ''flv'', ''mkv'']"

definition audioExts :: "string list" where
  "audioExts = [''mp3'', ''wav'', ''ogg'', ''flac'', ''aac'']"

definition textExts :: "string list" where
  "textExts = [''txt'', ''md'', ''json'', ''xml'', ''html'', ''css'', ''js'', ''ts'', ''go'',
               ''py'', ''java'', ''c'', ''cpp'', ''h'']"

definition archiveExts :: "string list" where
  "archiveExts = [''zip'', ''rar'', ''7z'', ''tar'', ''gz'', ''bz2'']"

definition getFileExtension :: "string \<Rightarrow> string" where
  "getFileExtension filename =
     (let parts = split_dot filename in
      if length parts > 1 then toLowerCase (last parts) else [])"

definition getFileCategory :: "string \<Rightarrow> string" where
  "getFileCategory ext =
     (if ext \<in> set imageExts then ''image''
      else if ext \<in> set videoExts then ''video''
      else if ext \<in> set audioExts then ''audio''
      else if ext \<in> set textExts then ''text''
      else if ext \<in> set archiveExts then ''archive''
      else ''binary'')"

subsection \<open>The interfaces of SoftwareTemplatesPage.tsx and LoginPage.tsx\<close>

text \<open>
  Field names carry a prefix where two interfaces use the same name.
\<close>

record SoftwareTemplate =
  t_id :: int
  t_name :: string
  t_description :: string
  t_archiveFileId :: int
  t_createdBy :: int
  t_createdAt :: string
  t_updatedAt :: string

record PageInfo =
  pg_page :: int
  pg_pageSize :: int
  pg_total :: int

datatype message_type = MsgError | MsgSuccess | MsgInfo

record Message =
  msg_type :: message_type
  msg_text :: ui_text

record PreUploadResp =
  pr_uploadUrl :: string
  pr_fileId :: int
  pr_versionId :: int
  pr_versionNumber :: int
  pr_contentType :: string

record FileVersionItem =
  fv_id :: int
  fv_fileId :: int
  fv_versionNumber :: int
  fv_sizeBytes :: int
  fv_hash :: string
  fv_storageKey :: string
  fv_createdAt :: string
  fv_updatedAt :: string
  fv_createdBy :: int

record DownloadFileResp =
  dl_downloadUrl :: string
  dl_expiresAt :: string

text \<open>The body \<^verbatim>\<open>{ list, page }\<close> of a paginated listing.\<close>

record 'a paged =
  pd_list :: "'a list"
  pd_page :: PageInfo

text \<open>
  A \<^verbatim>\<open>File\<close>: its name, size and declared MIME type, and what \<^verbatim>\<open>file.arrayBuffer()\<close>
  settles to (the bytes, or a thrown value when the file cannot be read).
\<close>

record File =
  file_name :: string
  file_size :: int
  file_type :: string
  file_arrayBuffer :: "8 word list exn"

text \<open>The argument objects of the wrappers; an optional property is an \<open>option\<close>.\<close>

record preupload_input =
  pi_projectId :: int
  pi_name :: string
  pi_fileCategory :: string
  pi_fileFormat :: string
  pi_sizeBytes :: int
  pi_hash :: string
  pi_contentType :: "string option"

record create_input =
  ci_name :: string
  ci_description :: "string option"
  ci_archiveFileId :: "int option"

record update_input =
  ui_name :: "string option"
  ui_description :: "string option"
  ui_archiveFileId :: "int option"

record download_input =
  di_fileId :: int
  di_versionId :: "int option"
  di_versionNumber :: "int option"

record login_input =
  li_username :: string
  li_password :: string

record login_data =
  ld_adminId :: int
  ld_role :: string
  ld_token :: string

text \<open>
  The argument of \<^verbatim>\<open>fetch\<close>. The body is the object given to \<^verbatim>\<open>JSON.stringify\<close> (or the
  file of the PUT), kept as a value; \<open>unit\<close> for a request without body.
\<close>

record 'b request =
  req_url :: string
  req_method :: string
  req_headers :: "(string \<times> string) list"
  req_body :: 'b

subsection \<open>The environment\<close>

text \<open>
  \<^verbatim>\<open>fetch\<close> has one field for each endpoint, since each endpoint's response is read at
  its own type. \<open>Inl\<close> is a rejected promise or a thrown value. \<^verbatim>\<open>API_BASE_URL\<close> is read
  from the build environment.
\<close>

record env =
  API_BASE_URL :: string
  JSON_parse :: "string \<Rightarrow> json option"
  localStorage_getItem :: "string \<Rightarrow> string option exn"
  sessionStorage_getItem :: "string \<Rightarrow> string option exn"
  subtle_digest :: "string \<Rightarrow> 8 word list \<Rightarrow> 8 word list exn"
  fetch_login :: "login_input request \<Rightarrow> login_data response exn"
  fetch_preupload :: "preupload_input request \<Rightarrow> PreUploadResp response exn"
  fetch_put :: "File request \<Rightarrow> unit response exn"
  fetch_versions :: "unit request \<Rightarrow> FileVersionItem paged response exn"
  fetch_download :: "unit request \<Rightarrow> DownloadFileResp response exn"
  fetch_templates :: "unit request \<Rightarrow> SoftwareTemplate paged response exn"
  fetch_create :: "create_input request \<Rightarrow> SoftwareTemplate response exn"
  fetch_update :: "update_input request \<Rightarrow> unit response exn"

subsection \<open>The wrappers\<close>

text \<open>
  Each wrapper is one \<^verbatim>\<open>try\<close> block and one \<^verbatim>\<open>catch\<close> block. The \<^verbatim>\<open>try\<close> block of
  wrapper \<open>f\<close> is \<open>f_try\<close>.
\<close>

definition truthy_string :: "string option \<Rightarrow> bool" where
  "truthy_string a = (case a of None \<Rightarrow> False | Some s \<Rightarrow> s \<noteq> [])"

definition getAuthToken :: "env \<Rightarrow> string option exn" where
  \<comment> \<open>\<^verbatim>\<open>localStorage.getItem(k) || sessionStorage.getItem(k)\<close>\<close>
  "getAuthToken env =
     (case localStorage_getItem env ''sparkx_admin_token'' of
        Inl e \<Rightarrow> Inl e
      | Inr a \<Rightarrow> if truthy_string a then Inr a
                 else sessionStorage_getItem env ''sparkx_admin_token'')"

definition auth_headers :: "string option \<Rightarrow> (string \<times> string) list" where
  \<comment> \<open>the template \<^verbatim>\<open>Bearer ${token}\<close> prints \<^verbatim>\<open>null\<close> for a missing token\<close>
  "auth_headers token =
     [(''Content-Type'', ''application/json''),
      (''Authorization'', ''Bearer '' @ (case token of None \<Rightarrow> ''null'' | Some t \<Rightarrow> t))]"

definition error_message_or :: "thrown \<Rightarrow> string \<Rightarrow> string" where
  \<comment> \<open>\<^verbatim>\<open>error instanceof Error ? error.message : dflt\<close>\<close>
  "error_message_or error dflt = (case error of ErrorObj m \<Rightarrow> m | NonError \<Rightarrow> dflt)"

definition calculateFileHash :: "env \<Rightarrow> File \<Rightarrow> string exn" where
  "calculateFileHash env file =
     (case file_arrayBuffer file of
        Inl e \<Rightarrow> Inl e
      | Inr arrayBuffer \<Rightarrow>
          (case subtle_digest env ''SHA-256'' arrayBuffer of
             Inl e \<Rightarrow> Inl e
           | Inr hashBuffer \<Rightarrow>
               Inr (concat (map (\<lambda>b. padStart2 (toString16 (unat b))) hashBuffer))))"

definition adminLogin_try :: "env \<Rightarrow> login_input \<Rightarrow> login_data api_result exn" where
  "adminLogin_try env input =
     (case fetch_login env
             \<lparr>req_url = API_BASE_URL env @ ''/api/v1/admin/login'', req_method = ''POST'',
              req_headers = [(''Content-Type'', ''application/json'')], req_body = input\<rparr> of
        Inl e \<Rightarrow> Inl e
      | Inr response \<Rightarrow>
          if \<not> resp_ok response then
            (case parseApiErrorMessage (JSON_parse env) response of
               Inl e \<Rightarrow> Inl e
             | Inr m \<Rightarrow> Inr (Fail (Literal m)))
          else (case resp_json response of Inl e \<Rightarrow> Inl e | Inr d \<Rightarrow> Inr (Ok d)))"

definition adminLogin :: "env \<Rightarrow> login_input \<Rightarrow> login_data api_result exn" where
  "adminLogin env input =
     try_catch (adminLogin_try env input)
       (\<lambda>error. Inr (Fail (Literal (error_message_or error ''Request failed''))))"

definition preUploadFile_try :: "env \<Rightarrow> preupload_input \<Rightarrow> PreUploadResp api_result exn" where
  "preUploadFile_try env input =
     (case getAuthToken env of
        Inl e \<Rightarrow> Inl e
      | Inr token \<Rightarrow>
          (case fetch_preupload env
                  \<lparr>req_url = API_BASE_URL env @ ''/api/v1/admin/files/preupload'',
                   req_method = ''POST'', req_headers = auth_headers token,
                   req_body = input\<rparr> of
             Inl e \<Rightarrow> Inl e
           | Inr response \<Rightarrow>
               if \<not> resp_ok response then
                 (case parseApiErrorMessage (JSON_parse env) response of
                    Inl e \<Rightarrow> Inl e
                  | Inr m \<Rightarrow> Inr (Fail (Literal m)))
               else (case resp_json response of Inl e \<Rightarrow> Inl e | Inr d \<Rightarrow> Inr (Ok d))))"

definition preUploadFile :: "env \<Rightarrow> preupload_input \<Rightarrow> PreUploadResp api_result exn" where
  "preUploadFile env input =
     try_catch (preUploadFile_try env input)
       (\<lambda>error. Inr (Fail (Literal (error_message_or error ''Request failed''))))"

definition listFileVersions_try :: "env \<Rightarrow> int \<Rightarrow> int \<Rightarrow> int \<Rightarrow> FileVersionItem paged api_result exn" where
  "listFileVersions_try env fileId page pageSize =
     (case getAuthToken env of
        Inl e \<Rightarrow> Inl e
      | Inr token \<Rightarrow>
          (case fetch_versions env
                  \<lparr>req_url = API_BASE_URL env @ ''/api/v1/admin/files/'' @ String_of_int fileId
                              @ ''/versions?page='' @ String_of_int page
                              @ ''&pageSize='' @ String_of_int pageSize,
                   req_method = ''GET'', req_headers = auth_headers token, req_body = ()\<rparr> of
             Inl e \<Rightarrow> Inl e
           | Inr response \<Rightarrow>
               if \<not> resp_ok response then
                 (case parseApiErrorMessage (JSON_parse env) response of
                    Inl e \<Rightarrow> Inl e
                  | Inr m \<Rightarrow> Inr (Fail (Literal m)))
               else (case resp_json response of Inl e \<Rightarrow> Inl e | Inr d \<Rightarrow> Inr (Ok d))))"

definition listFileVersions :: "env \<Rightarrow> int \<Rightarrow> int \<Rightarrow> int \<Rightarrow> FileVersionItem paged api_result exn" where
  "listFileVersions env fileId page pageSize =
     try_catch (listFileVersions_try env fileId page pageSize)
       (\<lambda>error. Inr (Fail (Literal (error_message_or error ''Request failed''))))"

text \<open>
  \<^verbatim>\<open>getDownloadUrl\<close> sets a query parameter for each of \<^verbatim>\<open>versionId\<close> and
  \<^verbatim>\<open>versionNumber\<close> that is truthy (present and not 0).
\<close>

definition truthy_int :: "int option \<Rightarrow> bool" where
  "truthy_int a = (case a of None \<Rightarrow> False | Some n \<Rightarrow> n \<noteq> 0)"

definition download_query :: "download_input \<Rightarrow> string" where
  "download_query input =
     (let params =
            (if truthy_int (di_versionId input)
             then [''versionId='' @ String_of_int (the (di_versionId input))] else [])
          @ (if truthy_int (di_versionNumber input)
             then [''versionNumber='' @ String_of_int (the (di_versionNumber input))] else [])
      in case params of
           [] \<Rightarrow> []
         | [a] \<Rightarrow> a
         | a # b # _ \<Rightarrow> a @ ''&'' @ b)"

definition getDownloadUrl_try :: "env \<Rightarrow> download_input \<Rightarrow> DownloadFileResp api_result exn" where
  "getDownloadUrl_try env input =
     (case getAuthToken env of
        Inl e \<Rightarrow> Inl e
      | Inr token \<Rightarrow>
          (let query = download_query input in
           case fetch_download env
                  \<lparr>req_url = API_BASE_URL env @ ''/api/v1/admin/files/''
                              @ String_of_int (di_fileId input) @ ''/download''
                              @ (if query \<noteq> [] then ''?'' @ query else []),
                   req_method = ''GET'', req_headers = auth_headers token, req_body = ()\<rparr> of
             Inl e \<Rightarrow> Inl e
           | Inr response \<Rightarrow>
               if \<not> resp_ok response then
                 (case parseApiErrorMessage (JSON_parse env) response of
                    Inl e \<Rightarrow> Inl e
                  | Inr m \<Rightarrow> Inr (Fail (Literal m)))
               else (case resp_json response of Inl e \<Rightarrow> Inl e | Inr d \<Rightarrow> Inr (Ok d))))"

definition getDownloadUrl :: "env \<Rightarrow> download_input \<Rightarrow> DownloadFileResp api_result exn" where
  "getDownloadUrl env input =
     try_catch (getDownloadUrl_try env input)
       (\<lambda>error. Inr (Fail (Literal (error_message_or error ''Request failed''))))"

text \<open>
  The PUT to object storage. A response that is not ok gives the template
  "upload failed: " followed by the status and the status text.
\<close>

definition uploadFileToOSS_try :: "env \<Rightarrow> string \<Rightarrow> File \<Rightarrow> string \<Rightarrow> unit api_result exn" where
  "uploadFileToOSS_try env uploadUrl file contentType =
     (case fetch_put env
             \<lparr>req_url = uploadUrl, req_method = ''PUT'',
              req_headers = [(''Content-Type'', contentType)], req_body = file\<rparr> of
        Inl e \<Rightarrow> Inl e
      | Inr response \<Rightarrow>
          if \<not> resp_ok response then
            Inr (Fail (Zh_upload_failed
                   (Literal (String_of_int (resp_status response) @ '' ''
                             @ resp_statusText response))))
          else Inr (Ok ()))"

definition uploadFileToOSS :: "env \<Rightarrow> string \<Rightarrow> File \<Rightarrow> string \<Rightarrow> unit api_result exn" where
  "uploadFileToOSS env uploadUrl file contentType =
     try_catch (uploadFileToOSS_try env uploadUrl file contentType)
       (\<lambda>error. Inr (Fail (Literal (error_message_or error ''Upload failed''))))"

definition listSoftwareTemplates_try :: "env \<Rightarrow> int \<Rightarrow> int \<Rightarrow> SoftwareTemplate paged api_result exn" where
  "listSoftwareTemplates_try env page pageSize =
     (case getAuthToken env of
        Inl e \<Rightarrow> Inl e
      | Inr token \<Rightarrow>
          (case fetch_templates env
                  \<lparr>req_url = API_BASE_URL env @ ''/api/v1/admin/software-templates?page=''
                              @ String_of_int page @ ''&pageSize='' @ String_of_int pageSize,
                   req_method = ''GET'', req_headers = auth_headers token, req_body = ()\<rparr> of
             Inl e \<Rightarrow> Inl e
           | Inr response \<Rightarrow>
               if \<not> resp_ok response then
                 (case parseApiErrorMessage (JSON_parse env) response of
                    Inl e \<Rightarrow> Inl e
                  | Inr m \<Rightarrow> Inr (Fail (Literal m)))
               else (case resp_json response of Inl e \<Rightarrow> Inl e | Inr d \<Rightarrow> Inr (Ok d))))"

definition listSoftwareTemplates :: "env \<Rightarrow> int \<Rightarrow> int \<Rightarrow> SoftwareTemplate paged api_result exn" where
  "listSoftwareTemplates env page pageSize =
     try_catch (listSoftwareTemplates_try env page pageSize)
       (\<lambda>error. Inr (Fail (Literal (error_message_or error ''Request failed''))))"

definition createSoftwareTemplate_try :: "env \<Rightarrow> create_input \<Rightarrow> SoftwareTemplate api_result exn" where
  "createSoftwareTemplate_try env input =
     (case getAuthToken env of
        Inl e \<Rightarrow> Inl e
      | Inr token \<Rightarrow>
          (case fetch_create env
                  \<lparr>req_url = API_BASE_URL env @ ''/api/v1/admin/software-templates'',
                   req_method = ''POST'', req_headers = auth_headers token,
                   req_body = input\<rparr> of
             Inl e \<Rightarrow> Inl e
           | Inr response \<Rightarrow>
               if \<not> resp_ok response then
                 (case parseApiErrorMessage (JSON_parse env) response of
                    Inl e \<Rightarrow> Inl e
                  | Inr m \<Rightarrow> Inr (Fail (Literal m)))
               else (case resp_json response of Inl e \<Rightarrow> Inl e | Inr d \<Rightarrow> Inr (Ok d))))"

definition createSoftwareTemplate :: "env \<Rightarrow> create_input \<Rightarrow> SoftwareTemplate api_result exn" where
  "createSoftwareTemplate env input =
     try_catch (createSoftwareTemplate_try env input)
       (\<lambda>error. Inr (Fail (Literal (error_message_or error ''Request failed''))))"

definition updateSoftwareTemplate_try :: "env \<Rightarrow> int \<Rightarrow> update_input \<Rightarrow> unit api_result exn" where
  "updateSoftwareTemplate_try env template_id input =
     (case getAuthToken env of
        Inl e \<Rightarrow> Inl e
      | Inr token \<Rightarrow>
          (case fetch_update env
                  \<lparr>req_url = API_BASE_URL env @ ''/api/v1/admin/software-templates/''
                              @ String_of_int template_id,
                   req_method = ''PUT'', req_headers = auth_headers token,
                   req_body = input\<rparr> of
             Inl e \<Rightarrow> Inl e
           | Inr response \<Rightarrow>
               if \<not> resp_ok response then
                 (case parseApiErrorMessage (JSON_parse env) response of
                    Inl e \<Rightarrow> Inl e
                  | Inr m \<Rightarrow> Inr (Fail (Literal m)))
               else Inr (Ok ())))"

definition updateSoftwareTemplate :: "env \<Rightarrow> int \<Rightarrow> update_input \<Rightarrow> unit api_result exn" where
  "updateSoftwareTemplate env template_id input =
     try_catch (updateSoftwareTemplate_try env template_id input)
       (\<lambda>error. Inr (Fail (Literal (error_message_or error ''Request failed''))))"

subsection \<open>The state of SoftwareTemplatesPage\<close>

datatype upload_mode = New | Existing

record formData =
  fd_name :: string
  fd_description :: string
  fd_archiveFileId :: string

text \<open>
  The wrappers a handler invokes are logged, in order, in the ghost field \<open>calls\<close>.
\<close>

datatype api_call =
    PreUploadFile preupload_input
  | UploadFileToOSS string File string
  | CreateSoftwareTemplate create_input
  | UpdateSoftwareTemplate int update_input
  | ListSoftwareTemplates int int
  | ListFileVersions int int int

text \<open>
  One field for each \<^verbatim>\<open>useState\<close> of the component. The value of the file input
  element (\<^verbatim>\<open>fileInputRef\<close>) is not part of the state.
\<close>

record view =
  templates :: "SoftwareTemplate list"
  pageInfo :: PageInfo
  loading :: bool
  message :: "Message option"
  selectedTemplateId :: "int option"
  isCreateModalOpen :: bool
  isEditModalOpen :: bool
  editingTemplate :: "SoftwareTemplate option"
  formData :: formData
  selectedFile :: "File option"
  uploadProgress :: int
  isUploading :: bool
  uploadMode :: upload_mode
  versions :: "FileVersionItem list"
  versionsPageInfo :: PageInfo
  versionsLoading :: bool
  calls :: "api_call list"

definition log_call :: "api_call \<Rightarrow> view \<Rightarrow> view" where
  "log_call c v = v\<lparr>calls := calls v @ [c]\<rparr>"

definition error_message :: "ui_text \<Rightarrow> Message option" where
  "error_message t = Some \<lparr>msg_type = MsgError, msg_text = t\<rparr>"

definition success_message :: "ui_text \<Rightarrow> Message option" where
  "success_message t = Some \<lparr>msg_type = MsgSuccess, msg_text = t\<rparr>"

subsection \<open>The handlers of SoftwareTemplatesPage\<close>

text \<open>
  A handler reads the state \<open>v0\<close> of the render that created it and updates the current
  state \<open>v\<close>. It returns the state after its updates and, when a promise it started
  rejects, the thrown value.
\<close>

definition clearVersions :: "view \<Rightarrow> view" where
  "clearVersions v =
     v\<lparr>versions := [],
       versionsPageInfo := \<lparr>pg_page = 1, pg_pageSize = 20, pg_total = 0\<rparr>,
       versionsLoading := False\<rparr>"

definition loadVersionsForFile ::
  "env \<Rightarrow> int \<Rightarrow> int \<Rightarrow> int \<Rightarrow> view \<Rightarrow> view \<times> thrown option" where
  "loadVersionsForFile env fileId page pageSize v =
     (let v1 = log_call (ListFileVersions fileId page pageSize) (v\<lparr>versionsLoading := True\<rparr>) in
      case listFileVersions env fileId page pageSize of
        Inl e \<Rightarrow> (v1, Some e)
      | Inr result \<Rightarrow>
          (let v2 = v1\<lparr>versionsLoading := False\<rparr> in
           case result of
             Fail m \<Rightarrow> (v2\<lparr>message := error_message m\<rparr>, None)
           | Ok d \<Rightarrow> (v2\<lparr>versions := pd_list d, versionsPageInfo := pd_page d\<rparr>, None)))"

text \<open>
  \<^verbatim>\<open>selectTemplate\<close>: \<^verbatim>\<open>!template?.archiveFileId\<close> holds for no template and for an
  archive file id of 0.
\<close>

definition selectTemplate ::
  "env \<Rightarrow> view \<Rightarrow> SoftwareTemplate option \<Rightarrow> view \<Rightarrow> view \<times> thrown option" where
  "selectTemplate env v0 template v =
     (let v1 = v\<lparr>selectedTemplateId := map_option t_id template\<rparr> in
      case template of
        None \<Rightarrow> (clearVersions v1, None)
      | Some t \<Rightarrow>
          if t_archiveFileId t = 0 then (clearVersions v1, None)
          else loadVersionsForFile env (t_archiveFileId t) 1 (pg_pageSize (versionsPageInfo v0))
                 (v1\<lparr>versions := [],
                     versionsPageInfo := (versionsPageInfo v1)\<lparr>pg_page := 1, pg_total := 0\<rparr>\<rparr>))"

text \<open>
  \<^verbatim>\<open>loadTemplates\<close>: the next selection is the template of the new list whose id is the
  \<^verbatim>\<open>selectedTemplateId\<close> of the render (when that is truthy and found), else the first
  of the list, else none.
\<close>

definition nextTemplate :: "int option \<Rightarrow> SoftwareTemplate list \<Rightarrow> SoftwareTemplate option" where
  "nextTemplate selected lst =
     (case (if truthy_int selected then find (\<lambda>t. t_id t = the selected) lst else None) of
        Some t \<Rightarrow> Some t
      | None \<Rightarrow> (case lst of [] \<Rightarrow> None | t # _ \<Rightarrow> Some t))"

definition loadTemplates :: "env \<Rightarrow> view \<Rightarrow> view \<Rightarrow> view \<times> thrown option" where
  "loadTemplates env v0 v =
     (let v1 = log_call (ListSoftwareTemplates (pg_page (pageInfo v0)) (pg_pageSize (pageInfo v0)))
                 (v\<lparr>loading := True\<rparr>) in
      case listSoftwareTemplates env (pg_page (pageInfo v0)) (pg_pageSize (pageInfo v0)) of
        Inl e \<Rightarrow> (v1, Some e)
      | Inr result \<Rightarrow>
          (let v2 = v1\<lparr>loading := False\<rparr> in
           case result of
             Fail m \<Rightarrow> (v2\<lparr>message := error_message m\<rparr>, None)
           | Ok d \<Rightarrow>
               selectTemplate env v0 (nextTemplate (selectedTemplateId v0) (pd_list d))
                 (v2\<lparr>templates := pd_list d, pageInfo := pd_page d\<rparr>)))"

definition resetForm :: "view \<Rightarrow> view" where
  "resetForm v =
     v\<lparr>formData := \<lparr>fd_name = [], fd_description = [], fd_archiveFileId = []\<rparr>,
       selectedFile := None, uploadProgress := 0, uploadMode := New\<rparr>"

definition closeCreateModal :: "view \<Rightarrow> view" where
  "closeCreateModal v = resetForm (v\<lparr>isCreateModalOpen := False\<rparr>)"

definition openEditModal :: "SoftwareTemplate \<Rightarrow> view \<Rightarrow> view" where
  "openEditModal template v =
     v\<lparr>editingTemplate := Some template,
       formData := \<lparr>fd_name = t_name template, fd_description = t_description template,
                    fd_archiveFileId =
                      (if t_archiveFileId template \<noteq> 0
                       then String_of_int (t_archiveFileId template) else [])\<rparr>,
       uploadMode := New, selectedFile := None, uploadProgress := 0,
       isEditModalOpen := True\<rparr>"

definition closeEditModal :: "view \<Rightarrow> view" where
  "closeEditModal v = resetForm (v\<lparr>isEditModalOpen := False, editingTemplate := None\<rparr>)"

text \<open>
  Steps 1 to 3 of the upload. Lines 556 to 618 of \<^verbatim>\<open>handleUploadAndCreate\<close> and lines 653
  to 715 of \<^verbatim>\<open>handleUploadAndUpdate\<close> are the same text, embedded once here. The outcome
  is \<open>Returned\<close> where the handler returns inside the block, and \<open>Proceed a\<close> where it goes
  on to step 4 with the local variable \<^verbatim>\<open>archiveFileId\<close> holding \<open>a\<close> (\<open>None\<close> for
  \<^verbatim>\<open>undefined\<close>). \<open>upload_catch\<close> is the \<^verbatim>\<open>catch\<close> block.
\<close>

datatype upload_outcome = Returned | Proceed "int option"

definition upload_catch :: "view \<Rightarrow> view" where
  "upload_catch v =
     v\<lparr>message := error_message Zh_upload_error, isUploading := False, uploadProgress := 0\<rparr>"

definition preupload_input_of :: "File \<Rightarrow> string \<Rightarrow> preupload_input" where
  "preupload_input_of file fileHash =
     (let ext = getFileExtension (file_name file);
          category = getFileCategory ext
      in \<lparr>pi_projectId = 0, pi_name = file_name file, pi_fileCategory = category,
          pi_fileFormat = ext, pi_sizeBytes = file_size file, pi_hash = fileHash,
          pi_contentType = (if file_type file \<noteq> [] then Some (file_type file) else None)\<rparr>)"

definition upload_new :: "env \<Rightarrow> File \<Rightarrow> view \<Rightarrow> view \<times> upload_outcome" where
  "upload_new env file v =
     (let v1 = v\<lparr>isUploading := True, uploadProgress := 10\<rparr>\<lparr>uploadProgress := 20\<rparr> in
      case calculateFileHash env file of
        Inl e \<Rightarrow> (upload_catch v1, Returned)
      | Inr fileHash \<Rightarrow>
          (let input = preupload_input_of file fileHash;
               v2 = log_call (PreUploadFile input) (v1\<lparr>uploadProgress := 40\<rparr>)
           in case preUploadFile env input of
                Inl e \<Rightarrow> (upload_catch v2, Returned)
              | Inr (Fail m) \<Rightarrow>
                  (v2\<lparr>message := error_message (Zh_preupload_failed m),
                      isUploading := False, uploadProgress := 0\<rparr>, Returned)
              | Inr (Ok data) \<Rightarrow>
                  (let v3 = log_call (UploadFileToOSS (pr_uploadUrl data) file (pr_contentType data))
                              (v2\<lparr>uploadProgress := 60\<rparr>)
                   in case uploadFileToOSS env (pr_uploadUrl data) file (pr_contentType data) of
                        Inl e \<Rightarrow> (upload_catch v3, Returned)
                      | Inr (Fail m) \<Rightarrow>
                          (v3\<lparr>message := error_message (Zh_upload_failed m),
                              isUploading := False, uploadProgress := 0\<rparr>, Returned)
                      | Inr (Ok u) \<Rightarrow>
                          (v3\<lparr>uploadProgress := 80\<rparr>, Proceed (Some (pr_fileId data))))))"

definition upload_steps :: "env \<Rightarrow> view \<Rightarrow> view \<Rightarrow> view \<times> upload_outcome" where
  "upload_steps env v0 v =
     (if uploadMode v0 = New \<and> selectedFile v0 \<noteq> None
      then upload_new env (the (selectedFile v0)) v
      else if uploadMode v0 = Existing \<and> trim (fd_archiveFileId (formData v0)) \<noteq> []
      then (case parseInt (trim (fd_archiveFileId (formData v0))) of
              None \<Rightarrow> (v, Proceed None)
            | Some fileId \<Rightarrow> if fileId > 0 then (v, Proceed (Some fileId)) else (v, Proceed None))
      else (v, Proceed None))"

definition optional_string :: "string \<Rightarrow> string option" where
  \<comment> \<open>\<^verbatim>\<open>if (s.trim()) input.field = s.trim()\<close>\<close>
  "optional_string s = (if trim s \<noteq> [] then Some (trim s) else None)"

definition optional_id :: "int option \<Rightarrow> int option" where
  \<comment> \<open>\<^verbatim>\<open>if (archiveFileId) input.archiveFileId = archiveFileId\<close>\<close>
  "optional_id a = (if truthy_int a then a else None)"

definition handleUploadAndCreate :: "env \<Rightarrow> view \<Rightarrow> view \<times> thrown option" where
  "handleUploadAndCreate env v0 =
     (let v1 = v0\<lparr>message := None\<rparr> in
      if trim (fd_name (formData v0)) = [] then (v1\<lparr>message := error_message Zh_name_empty\<rparr>, None)
      else
        (case upload_steps env v0 v1 of
           (v2, Returned) \<Rightarrow> (v2, None)
         | (v2, Proceed archiveFileId) \<Rightarrow>
             (let input = \<lparr>ci_name = trim (fd_name (formData v0)),
                           ci_description = optional_string (fd_description (formData v0)),
                           ci_archiveFileId = optional_id archiveFileId\<rparr>;
                  v3 = log_call (CreateSoftwareTemplate input) (v2\<lparr>uploadProgress := 90\<rparr>)
              in case createSoftwareTemplate env input of
                   Inl e \<Rightarrow> (v3, Some e)
                 | Inr result \<Rightarrow>
                     (let v4 = v3\<lparr>isUploading := False, uploadProgress := 0\<rparr> in
                      case result of
                        Fail m \<Rightarrow> (v4\<lparr>message := error_message m\<rparr>, None)
                      | Ok data \<Rightarrow>
                          loadTemplates env v0
                            (closeCreateModal (v4\<lparr>message := success_message Zh_created\<rparr>))))))"

definition handleUploadAndUpdate :: "env \<Rightarrow> view \<Rightarrow> view \<times> thrown option" where
  "handleUploadAndUpdate env v0 =
     (let v1 = v0\<lparr>message := None\<rparr> in
      case editingTemplate v0 of
        None \<Rightarrow> (v1, None)
      | Some editing \<Rightarrow>
          (case upload_steps env v0 v1 of
             (v2, Returned) \<Rightarrow> (v2, None)
           | (v2, Proceed archiveFileId) \<Rightarrow>
               (let input = \<lparr>ui_name = optional_string (fd_name (formData v0)),
                             ui_description = optional_string (fd_description (formData v0)),
                             ui_archiveFileId = optional_id archiveFileId\<rparr>;
                    v3 = log_call (UpdateSoftwareTemplate (t_id editing) input)
                           (v2\<lparr>uploadProgress := 90\<rparr>)
                in case updateSoftwareTemplate env (t_id editing) input of
                     Inl e \<Rightarrow> (v3, Some e)
                   | Inr result \<Rightarrow>
                       (let v4 = v3\<lparr>isUploading := False, uploadProgress := 0\<rparr> in
                        case result of
                          Fail m \<Rightarrow> (v4\<lparr>message := error_message m\<rparr>, None)
                        | Ok u \<Rightarrow>
                            loadTemplates env v0
                              (closeEditModal (v4\<lparr>message := success_message Zh_updated\<rparr>))))))"

subsection \<open>The edit forms of LlmManagementPage.tsx and AgentManagementPage.tsx\<close>

text \<open>
  For the three other edit forms the embedding covers the edit branch of the submit
  handler up to the payload it hands to the update wrapper: \<open>None\<close> where the handler
  returns after a validation message, \<open>Some payload\<close> where it calls the wrapper.
\<close>

record LlmProvider =
  lp_id :: int
  lp_name :: string
  lp_baseUrl :: string
  lp_hasApiKey :: bool
  lp_description :: string
  lp_createdAt :: string
  lp_updatedAt :: string

record providerForm =
  pf_name :: string
  pf_baseUrl :: string
  pf_description :: string
  pf_apiKey :: string
  pf_clearApiKey :: bool

record provider_update =
  pu_name :: "string option"
  pu_baseUrl :: "string option"
  pu_apiKey :: "string option"
  pu_clearApiKey :: "bool option"
  pu_description :: "string option"

definition openEditProvider :: "LlmProvider \<Rightarrow> providerForm" where
  "openEditProvider provider =
     \<lparr>pf_name = lp_name provider, pf_baseUrl = lp_baseUrl provider,
      pf_description = lp_description provider, pf_apiKey = [], pf_clearApiKey = False\<rparr>"

definition submitProvider_edit :: "providerForm \<Rightarrow> LlmProvider \<Rightarrow> provider_update option" where
  "submitProvider_edit providerForm editingProvider =
     (if trim (pf_name providerForm) = [] then None
      else Some
        \<lparr>pu_name =
           (if trim (pf_name providerForm) \<noteq> []
               \<and> trim (pf_name providerForm) \<noteq> lp_name editingProvider
            then Some (trim (pf_name providerForm)) else None),
         pu_baseUrl =
           (if trim (pf_baseUrl providerForm) \<noteq> lp_baseUrl editingProvider
            then Some (trim (pf_baseUrl providerForm)) else None),
         pu_apiKey =
           (if \<not> pf_clearApiKey providerForm \<and> trim (pf_apiKey providerForm) \<noteq> []
            then Some (trim (pf_apiKey providerForm)) else None),
         pu_clearApiKey = (if pf_clearApiKey providerForm then Some True else None),
         pu_description =
           (if trim (pf_description providerForm) \<noteq> lp_description editingProvider
            then Some (trim (pf_description providerForm)) else None)\<rparr>)"

record LlmModel =
  lm_id :: int
  lm_providerId :: int
  lm_modelName :: string
  lm_modelType :: string
  lm_maxInputTokens :: int
  lm_maxOutputTokens :: int
  lm_supportStream :: bool
  lm_supportJson :: bool
  lm_priceInputPer1k :: rat
  lm_priceOutputPer1k :: rat
  lm_createdAt :: string
  lm_updatedAt :: string

record modelForm =
  mf_providerId :: string
  mf_modelName :: string
  mf_modelType :: string
  mf_maxInputTokens :: string
  mf_maxOutputTokens :: string
  mf_supportStream :: bool
  mf_supportJson :: bool
  mf_priceInputPer1k :: string
  mf_priceOutputPer1k :: string

record model_update =
  mu_providerId :: "int option"
  mu_modelName :: "string option"
  mu_modelType :: "string option"
  mu_maxInputTokens :: "int option"
  mu_maxOutputTokens :: "int option"
  mu_supportStream :: "bool option"
  mu_supportJson :: "bool option"
  mu_priceInputPer1k :: "rat option"
  mu_priceOutputPer1k :: "rat option"

definition nonneg_or_zero :: "'a::{linorder,zero} option \<Rightarrow> 'a" where
  \<comment> \<open>\<^verbatim>\<open>isNaN(x) ? 0 : Math.max(0, x)\<close>\<close>
  "nonneg_or_zero x = (case x of None \<Rightarrow> 0 | Some n \<Rightarrow> max 0 n)"

definition changed :: "'a \<Rightarrow> 'a \<Rightarrow> 'a option" where
  \<comment> \<open>\<^verbatim>\<open>if (next !== editing.field) payload.field = next\<close>\<close>
  "changed next loaded = (if next \<noteq> loaded then Some next else None)"

text \<open>
  The edit branch of \<^verbatim>\<open>submitModel\<close>. \<^verbatim>\<open>parseFloat\<close> is a parameter, \<open>None\<close> for
  \<^verbatim>\<open>NaN\<close>.
\<close>

definition submitModel_edit ::
  "(string \<Rightarrow> rat option) \<Rightarrow> modelForm \<Rightarrow> LlmModel \<Rightarrow> model_update option" where
  "submitModel_edit parseFloat modelForm editingModel =
     (case parseInt (mf_providerId modelForm) of
        None \<Rightarrow> None
      | Some providerId \<Rightarrow>
          if providerId \<le> 0 then None
          else if trim (mf_modelName modelForm) = [] then None
          else
            (let maxInputTokens = parseInt (mf_maxInputTokens modelForm);
                 maxOutputTokens = parseInt (mf_maxOutputTokens modelForm);
                 priceInputPer1k = parseFloat (mf_priceInputPer1k modelForm);
                 priceOutputPer1k = parseFloat (mf_priceOutputPer1k modelForm);
                 nextMaxIn = nonneg_or_zero maxInputTokens;
                 nextMaxOut = nonneg_or_zero maxOutputTokens;
                 nextPriceIn = nonneg_or_zero priceInputPer1k;
                 nextPriceOut = nonneg_or_zero priceOutputPer1k
             in Some
               \<lparr>mu_providerId = changed providerId (lm_providerId editingModel),
                mu_modelName = changed (trim (mf_modelName modelForm)) (lm_modelName editingModel),
                mu_modelType = changed (mf_modelType modelForm) (lm_modelType editingModel),
                mu_maxInputTokens = changed nextMaxIn (lm_maxInputTokens editingModel),
                mu_maxOutputTokens = changed nextMaxOut (lm_maxOutputTokens editingModel),
                mu_supportStream =
                  changed (mf_supportStream modelForm) (lm_supportStream editingModel),
                mu_supportJson = changed (mf_supportJson modelForm) (lm_supportJson editingModel),
                mu_priceInputPer1k = changed nextPriceIn (lm_priceInputPer1k editingModel),
                mu_priceOutputPer1k = changed nextPriceOut (lm_priceOutputPer1k editingModel)\<rparr>))"

record Agent =
  ag_id :: int
  ag_name :: string
  ag_description :: string
  ag_instruction :: string
  ag_agentType :: string
  ag_createdAt :: string

record agentForm =
  af_name :: string
  af_description :: string
  af_instruction :: string
  af_agentType :: string

record agent_update =
  au_name :: "string option"
  au_description :: "string option"
  au_instruction :: "string option"
  au_agentType :: "string option"

definition openEditAgent :: "Agent \<Rightarrow> agentForm" where
  "openEditAgent agent =
     \<lparr>af_name = ag_name agent, af_description = ag_description agent,
      af_instruction = ag_instruction agent,
      af_agentType = (if ag_agentType agent \<noteq> [] then ag_agentType agent else ''code'')\<rparr>"

text \<open>
  The edit branch of \<^verbatim>\<open>submitAgent\<close>. The description and the instruction are compared
  as typed and sent trimmed.
\<close>

definition submitAgent_edit :: "agentForm \<Rightarrow> Agent \<Rightarrow> agent_update option" where
  "submitAgent_edit agentForm editingAgent =
     (if trim (af_name agentForm) = [] then None
      else if trim (af_agentType agentForm) = [] then None
      else Some
        \<lparr>au_name =
           (if trim (af_name agentForm) \<noteq> []
               \<and> trim (af_name agentForm) \<noteq> ag_name editingAgent
            then Some (trim (af_name agentForm)) else None),
         au_description =
           (if af_description agentForm \<noteq> ag_description editingAgent
            then Some (trim (af_description agentForm)) else None),
         au_instruction =
           (if af_instruction agentForm \<noteq> ag_instruction editingAgent
            then Some (trim (af_instruction agentForm)) else None),
         au_agentType =
           (if trim (af_agentType agentForm) \<noteq> []
               \<and> trim (af_agentType agentForm) \<noteq> ag_agentType editingAgent
            then Some (trim (af_agentType agentForm)) else None)\<rparr>)"

subsection \<open>The initial state and a sample environment\<close>

text \<open>The initial values of the \<^verbatim>\<open>useState\<close> calls of SoftwareTemplatesPage.\<close>

definition initial_view :: view where
  "initial_view =
     \<lparr>templates = [], pageInfo = \<lparr>pg_page = 1, pg_pageSize = 10, pg_total = 0\<rparr>,
      loading = False, message = None, selectedTemplateId = None,
      isCreateModalOpen = False, isEditModalOpen = False, editingTemplate = None,
      formData = \<lparr>fd_name = [], fd_description = [], fd_archiveFileId = []\<rparr>,
      selectedFile = None, uploadProgress = 0, isUploading = False, uploadMode = New,
      versions = [], versionsPageInfo = \<lparr>pg_page = 1, pg_pageSize = 20, pg_total = 0\<rparr>,
      versionsLoading = False, calls = []\<rparr>"

text \<open>
  A browser without network, used to run the definitions on concrete inputs: every
  \<^verbatim>\<open>fetch\<close> rejects with the \<^verbatim>\<open>TypeError\<close> of a failed request, the token is stored in
  the session storage, \<^verbatim>\<open>JSON.parse\<close> knows one text, and the digest knows the SHA-256 of
  the empty byte sequence.
\<close>

definition sha256_of_empty :: "8 word list" where
  "sha256_of_empty =
     [227, 176, 196, 66, 152, 252, 28, 20,
      154, 251, 244, 200, 153, 111, 185, 36,
      39, 174, 65, 228, 100, 155, 147, 76,
      164, 149, 153, 27, 120, 82, 184, 85]"

definition name_required_body :: string where
  \<open>name_required_body = ''{"message":"name required"}''\<close>

definition offline_env :: env where
  "offline_env =
     \<lparr>API_BASE_URL = [],
      JSON_parse = [name_required_body \<mapsto> JObj [(''message'', JStr ''name required'')]],
      localStorage_getItem = (\<lambda>k. Inr None),
      sessionStorage_getItem = (\<lambda>k. Inr (if k = ''sparkx_admin_token'' then Some ''t0'' else None)),
      subtle_digest = (\<lambda>alg bytes. if alg = ''SHA-256'' \<and> bytes = [] then Inr sha256_of_empty
                                    else Inl (ErrorObj ''NotSupportedError'')),
      fetch_login = (\<lambda>req. Inl (ErrorObj ''Failed to fetch'')),
      fetch_preupload = (\<lambda>req. Inl (ErrorObj ''Failed to fetch'')),
      fetch_put = (\<lambda>req. Inl (ErrorObj ''Failed to fetch'')),
      fetch_versions = (\<lambda>req. Inl (ErrorObj ''Failed to fetch'')),
      fetch_download = (\<lambda>req. Inl (ErrorObj ''Failed to fetch'')),
      fetch_templates = (\<lambda>req. Inl (ErrorObj ''Failed to fetch'')),
      fetch_create = (\<lambda>req. Inl (ErrorObj ''Failed to fetch'')),
      fetch_update = (\<lambda>req. Inl (ErrorObj ''Failed to fetch''))\<rparr>"

definition empty_file :: File where
  "empty_file =
     \<lparr>file_name = ''starter.ZIP'', file_size = 0, file_type = ''application/zip'',
      file_arrayBuffer = Inr []\<rparr>"

definition error_response :: "int \<Rightarrow> string \<Rightarrow> 'd response" where
  "error_response code body =
     \<lparr>resp_ok = False, resp_status = code, resp_statusText = [], resp_text = Inr body,
      resp_json = Inl (ErrorObj ''Unexpected end of JSON input'')\<rparr>"

text \<open>
  A successful response, an upload slot as the negotiation returns it, and the states of
  the page after the user has opened the create dialog (typed a name, chosen a file) and
  the edit dialog of a loaded template (and chosen a file).
\<close>

definition ok_response :: "'d \<Rightarrow> 'd response" where
  "ok_response d =
     \<lparr>resp_ok = True, resp_status = 200, resp_statusText = ''OK'', resp_text = Inr [],
      resp_json = Inr d\<rparr>"

definition sample_slot :: PreUploadResp where
  "sample_slot =
     \<lparr>pr_uploadUrl = ''https://oss.example/slot'', pr_fileId = 42, pr_versionId = 7,
      pr_versionNumber = 3, pr_contentType = ''application/zip''\<rparr>"

definition sample_template :: SoftwareTemplate where
  "sample_template =
     \<lparr>t_id = 1, t_name = ''alpha'', t_description = ''first template'', t_archiveFileId = 0,
      t_createdBy = 1, t_createdAt = ''2026-01-01'', t_updatedAt = ''2026-01-01''\<rparr>"

definition created_template :: SoftwareTemplate where
  "created_template =
     \<lparr>t_id = 2, t_name = ''starter'', t_description = [], t_archiveFileId = 0,
      t_createdBy = 1, t_createdAt = ''2026-11-02'', t_updatedAt = ''2026-11-02''\<rparr>"

definition loaded_view :: view where
  "loaded_view = initial_view\<lparr>templates := [sample_template], selectedTemplateId := Some 1\<rparr>"

definition create_view :: view where
  "create_view =
     loaded_view
       \<lparr>isCreateModalOpen := True,
        formData := \<lparr>fd_name = '' starter '', fd_description = [], fd_archiveFileId = []\<rparr>,
        selectedFile := Some empty_file\<rparr>"

definition edit_view :: view where
  "edit_view = (openEditModal sample_template loaded_view)\<lparr>selectedFile := Some empty_file\<rparr>"

text \<open>
  Three more browsers: the negotiation answers and the storage is unreachable; the
  negotiation and the PUT succeed and the backend is unreachable after that; every
  request succeeds, the listing returning the loaded template followed by the created
  one.
\<close>

definition negotiated_env :: env where
  "negotiated_env = offline_env\<lparr>fetch_preupload := \<lambda>req. Inr (ok_response sample_slot)\<rparr>"

definition uploaded_env :: env where
  "uploaded_env = negotiated_env\<lparr>fetch_put := \<lambda>req. Inr (ok_response ())\<rparr>"

definition online_env :: env where
  "online_env =
     uploaded_env
       \<lparr>fetch_templates :=
          \<lambda>req. Inr (ok_response
                       \<lparr>pd_list = [sample_template, created_template],
                        pd_page = \<lparr>pg_page = 1, pg_pageSize = 10, pg_total = 2\<rparr>\<rparr>),
        fetch_create := \<lambda>req. Inr (ok_response created_template),
        fetch_update := \<lambda>req. Inr (ok_response ())\<rparr>"

definition forbidden_env :: env where
  "forbidden_env = negotiated_env\<lparr>fetch_put := \<lambda>req. Inr (error_response 403 [])\<rparr>"

definition zero_slot_env :: env where
  "zero_slot_env =
     uploaded_env\<lparr>fetch_preupload := \<lambda>req. Inr (ok_response (sample_slot\<lparr>pr_fileId := 0\<rparr>))\<rparr>"

text \<open>
  The create dialog with the mode switched to an existing file and the file id \<^verbatim>\<open>0\<close>
  typed in.
\<close>

definition existing_view :: view where
  "existing_view =
     loaded_view
       \<lparr>isCreateModalOpen := True,
        formData := \<lparr>fd_name = ''starter'', fd_description = [], fd_archiveFileId = ''0''\<rparr>,
        uploadMode := Existing\<rparr>"

definition sample_agent :: Agent where
  "sample_agent =
     \<lparr>ag_id = 5, ag_name = ''coder'', ag_description = ''helper'', ag_instruction = ''be brief'',
      ag_agentType = ''code'', ag_createdAt = ''2026-01-01''\<rparr>"

subsection \<open>The specification's wording\<close>

text \<open>
  The digest as the specification words it: lowercase hexadecimal, two digits for each
  byte.
\<close>

definition lowercase_hex :: "8 word list \<Rightarrow> string" where
  "lowercase_hex d =
     concat (map (\<lambda>b. [digit_char (unat b div 16), digit_char (unat b mod 16)]) d)"

text \<open>
  The error message as the specification words it. \<open>json_field\<close> is the field of the
  JSON body when the body is a JSON object and the field a non-blank string.
  \<open>error_message_as_stated\<close> falls back to the raw response text;
  \<open>error_message_trimmed\<close> falls back to the response text with the white space at both
  ends removed, and to the generic text when nothing is left.
\<close>

definition json_field :: "(string \<Rightarrow> json option) \<Rightarrow> string \<Rightarrow> string \<Rightarrow> string option" where
  "json_field parse txt k =
     (case parse txt of
        Some (JObj kvs) \<Rightarrow>
          (case map_of kvs k of
             Some (JStr s) \<Rightarrow> if trim s \<noteq> [] then Some s else None
           | _ \<Rightarrow> None)
      | _ \<Rightarrow> None)"


definition error_message_trimmed :: "(string \<Rightarrow> json option) \<Rightarrow> string \<Rightarrow> string" where
  "error_message_trimmed parse txt =
     (case json_field parse txt ''message'' of
        Some m \<Rightarrow> m
      | None \<Rightarrow>
          (case json_field parse txt ''msg'' of
             Some m \<Rightarrow> m
           | None \<Rightarrow> if trim txt \<noteq> [] then trim txt else ''Request failed''))"

section \<open>Properties\<close>

subsection \<open>Strings and digits\<close>

lemma trim_Nil [simp]: "trim [] = []"
  by (simp add: trim_def)

lemma toString16_small: "n < 16 \<Longrightarrow> toString16 n = [digit_char n]"
  by (simp add: toString16.simps)

lemma toString16_byte:
  "n < 256 \<Longrightarrow> padStart2 (toString16 n) = [digit_char (n div 16), digit_char (n mod 16)]"
proof (cases "n < 16")
  case True
  then show ?thesis by (simp add: toString16_small padStart2_def digit_char_def)
next
  case False
  assume "n < 256"
  with False have "n div 16 < 16" by simp
  with False show ?thesis
    by (subst toString16.simps) (simp add: toString16_small padStart2_def)
qed

lemma unat_byte: "unat (b :: 8 word) < 256"
  using unsigned_less [of b, where 'a = nat] by simp

lemma hex_of_bytes:
  "concat (map (\<lambda>b. padStart2 (toString16 (unat b))) (d :: 8 word list)) = lowercase_hex d"
  by (simp add: lowercase_hex_def toString16_byte unat_byte)

lemma digit_char_inj: "a < 16 \<Longrightarrow> b < 16 \<Longrightarrow> digit_char a = digit_char b \<Longrightarrow> a = b"
  by (simp add: digit_char_def nth_eq_iff_index_eq)

lemma digit_char_lower_hex: "a < 16 \<Longrightarrow> digit_char a \<in> set ''0123456789abcdef''"
  unfolding digit_char_def by (rule nth_mem) simp

lemma byte_div_mod_inj:
  "unat (x :: 8 word) div 16 = unat (y :: 8 word) div 16 \<Longrightarrow>
   unat x mod 16 = unat y mod 16 \<Longrightarrow> x = y"
proof -
  assume a: "unat x div 16 = unat y div 16" and b: "unat x mod 16 = unat y mod 16"
  have "unat x = unat y"
    using a b by (metis div_mult_mod_eq)
  then show "x = y" by (simp add: word_unat_eq_iff)
qed

lemma lowercase_hex_inj: "lowercase_hex d1 = lowercase_hex d2 \<Longrightarrow> d1 = d2"
proof (induction d1 arbitrary: d2)
  case Nil
  then show ?case by (cases d2) (simp_all add: lowercase_hex_def)
next
  case (Cons x xs)
  show ?case
  proof (cases d2)
    case Nil
    with Cons.prems show ?thesis by (simp add: lowercase_hex_def)
  next
    case (Cons y ys)
    have dx: "unat x div 16 < 16" "unat x mod 16 < 16" "unat y div 16 < 16" "unat y mod 16 < 16"
      using unat_byte [of x] unat_byte [of y] by simp_all
    from Cons.prems Cons have
      h: "digit_char (unat x div 16) = digit_char (unat y div 16)"
         "digit_char (unat x mod 16) = digit_char (unat y mod 16)"
         "lowercase_hex xs = lowercase_hex ys"
      by (simp_all add: lowercase_hex_def)
    have "x = y"
      using h(1,2) dx by (intro byte_div_mod_inj digit_char_inj)
    moreover have "xs = ys" using Cons.IH h(3) by blast
    ultimately show ?thesis using Cons by simp
  qed
qed

lemma lowercase_hex_length: "length (lowercase_hex d) = 2 * length d"
  by (induction d) (simp_all add: lowercase_hex_def)

lemma lowercase_hex_chars:
  "c \<in> set (lowercase_hex d) \<Longrightarrow> c \<in> set ''0123456789abcdef''"
proof -
  assume "c \<in> set (lowercase_hex d)"
  then obtain b :: "8 word" where
    c: "c = digit_char (unat b div 16) \<or> c = digit_char (unat b mod 16)"
    by (auto simp: lowercase_hex_def)
  have "unat b div 16 < 16" "unat b mod 16 < 16"
    using unat_byte [of b] by simp_all
  with c show ?thesis
    using digit_char_lower_hex by blast
qed

subsection \<open>The content hasher\<close>

text \<open>
  Claim C7. \<^verbatim>\<open>calculateFileHash\<close> is deterministic: two files with the same bytes get
  the same digest, whatever their names, sizes and declared types. When the file can be
  read and the platform digest for the algorithm name \<^verbatim>\<open>SHA-256\<close> succeeds, the result
  is that digest in lowercase hexadecimal: two characters of \<^verbatim>\<open>0-9a-f\<close> for each byte.
  The encoding loses nothing: different digests have different encodings.
\<close>

theorem calculateFileHash_deterministic_hex:
  "(file_arrayBuffer f1 = file_arrayBuffer f2 \<longrightarrow>
      calculateFileHash env f1 = calculateFileHash env f2) \<and>
   (file_arrayBuffer f = Inr bytes \<and> subtle_digest env ''SHA-256'' bytes = Inr d \<longrightarrow>
      calculateFileHash env f = Inr (lowercase_hex d) \<and>
      length (lowercase_hex d) = 2 * length d \<and>
      (\<forall>c \<in> set (lowercase_hex d). c \<in> set ''0123456789abcdef'')) \<and>
   (lowercase_hex d1 = lowercase_hex d2 \<longrightarrow> d1 = d2)"
proof (intro conjI impI)
  assume "file_arrayBuffer f1 = file_arrayBuffer f2"
  then show "calculateFileHash env f1 = calculateFileHash env f2"
    by (simp add: calculateFileHash_def)
next
  assume "file_arrayBuffer f = Inr bytes \<and> subtle_digest env ''SHA-256'' bytes = Inr d"
  then show "calculateFileHash env f = Inr (lowercase_hex d)"
    by (simp add: calculateFileHash_def hex_of_bytes)
next
  show "length (lowercase_hex d) = 2 * length d"
    by (rule lowercase_hex_length)
next
  show "\<forall>c \<in> set (lowercase_hex d). c \<in> set ''0123456789abcdef''"
    using lowercase_hex_chars by blast
next
  assume "lowercase_hex d1 = lowercase_hex d2"
  then show "d1 = d2" by (rule lowercase_hex_inj)
qed

theorem calculateFileHash_deterministic_hex_witness:
  "calculateFileHash offline_env empty_file
     = Inr ''e3b0c44298fc1c149afbf4c8996fb92427ae41e4649b934ca495991b7852b855'' \<and>
   calculateFileHash offline_env (empty_file\<lparr>file_name := ''other.bin''\<rparr>)
     = calculateFileHash offline_env empty_file"
proof -
  have a: "file_arrayBuffer empty_file = Inr []"
    by (simp add: empty_file_def)
  have b: "subtle_digest offline_env ''SHA-256'' [] = Inr sha256_of_empty"
    by (simp add: offline_env_def)
  have c: "file_arrayBuffer (empty_file\<lparr>file_name := ''other.bin''\<rparr>) = file_arrayBuffer empty_file"
    by simp
  have h: "lowercase_hex sha256_of_empty
             = ''e3b0c44298fc1c149afbf4c8996fb92427ae41e4649b934ca495991b7852b855''"
    by (simp add: lowercase_hex_def sha256_of_empty_def digit_char_def)
  from calculateFileHash_deterministic_hex
         [of "empty_file\<lparr>file_name := ''other.bin''\<rparr>" empty_file offline_env empty_file "[]"
             sha256_of_empty]
       a b c h
  show ?thesis by simp
qed

subsection \<open>The file category\<close>

text \<open>
  Claim C8. For every extension string \<^verbatim>\<open>getFileCategory\<close> returns one of the six
  categories; each of the five lists gives its own category, and \<^verbatim>\<open>binary\<close> is returned
  exactly for an extension that is in none of the five lists.
\<close>

theorem getFileCategory_lookup_table:
  "getFileCategory ext \<in> {''image'', ''video'', ''audio'', ''text'', ''archive'', ''binary''} \<and>
   (getFileCategory ext = ''binary'' \<longleftrightarrow>
      ext \<notin> set imageExts \<union> set videoExts \<union> set audioExts \<union> set textExts
              \<union> set archiveExts) \<and>
   (getFileCategory ext = ''image'' \<longleftrightarrow> ext \<in> set imageExts) \<and>
   (getFileCategory ext = ''video'' \<longleftrightarrow> ext \<in> set videoExts) \<and>
   (getFileCategory ext = ''audio'' \<longleftrightarrow> ext \<in> set audioExts) \<and>
   (getFileCategory ext = ''text'' \<longleftrightarrow> ext \<in> set textExts) \<and>
   (getFileCategory ext = ''archive'' \<longleftrightarrow> ext \<in> set archiveExts)"
  apply (simp add: getFileCategory_def)
  apply (simp add: imageExts_def videoExts_def audioExts_def textExts_def archiveExts_def)
  done

lemma getFileCategory_examples:
  "getFileCategory (getFileExtension ''starter.ZIP'') = ''archive'' \<and>
   getFileCategory (getFileExtension ''README'') = ''binary'' \<and>
   getFileCategory (getFileExtension ''logo.final.png'') = ''image''"
  by code_simp

subsection \<open>The error decoder\<close>

lemma parseApiErrorMessage_decodes:
  assumes "parse [] = None" and "resp_text response = Inr txt"
  shows "parseApiErrorMessage parse response = Inr (error_message_trimmed parse txt)"
  using assms
  by (auto simp: parseApiErrorMessage_def error_message_trimmed_def json_field_def get_prop_def
        nonblank_string_def the_string_def
      split: option.splits json.splits sum.splits if_splits)



text \<open>
  In LlmManagementPage.tsx a non-blank \<^verbatim>\<open>msg\<close> is returned whatever \<^verbatim>\<open>message\<close> holds.
\<close>

lemma parseApiErrorMessage_llm_msg_first:
  assumes "resp_text response = Inr txt" and "txt \<noteq> []"
    and "json_field parse txt ''msg'' = Some m"
  shows "parseApiErrorMessage_llm parse response = Inr m"
  using assms
  by (auto simp: parseApiErrorMessage_llm_def json_field_def get_prop_def
        nonblank_string_def the_string_def Let_def
      split: option.splits json.splits sum.splits if_splits)

lemma parseApiErrorMessage_llm_both_fields:
  "parseApiErrorMessage_llm
     [''{}'' \<mapsto> JObj [(''message'', JStr ''name required''), (''msg'', JStr ''bad request'')]]
     (error_response 400 ''{}'' :: unit response)
   = Inr ''bad request'' \<and>
   parseApiErrorMessage
     [''{}'' \<mapsto> JObj [(''message'', JStr ''name required''), (''msg'', JStr ''bad request'')]]
     (error_response 400 ''{}'' :: unit response)
   = Inr ''name required''"
  by (simp add: parseApiErrorMessage_llm_def parseApiErrorMessage_def error_response_def
        get_prop_def nonblank_string_def the_string_def trim_def is_ws_def)




subsection \<open>The wrappers never throw\<close>

lemma try_catch_total: "\<exists>r. try_catch body (\<lambda>error. Inr (h error)) = Inr r"
  by (cases body) (simp_all add: try_catch_def)

lemma try_catch_thrown: "body = Inl e \<Longrightarrow> try_catch body (\<lambda>error. Inr (h error)) = Inr (h e)"
  by (simp add: try_catch_def)

text \<open>
  Claim C9. Each of the eight wrappers returns a result for every environment and
  argument, and never a thrown value. Whatever is thrown inside its \<^verbatim>\<open>try\<close> block (by the
  storage, by \<^verbatim>\<open>fetch\<close>, or while the body of the response is read) comes back as
  \<^verbatim>\<open>{ ok: false, message }\<close>, the message being the one of the \<^verbatim>\<open>Error\<close>, or
  \<^verbatim>\<open>Request failed\<close> (\<^verbatim>\<open>Upload failed\<close> for the PUT) when the thrown value is not an
  \<^verbatim>\<open>Error\<close>. A promise of the browser that never settles is outside the model.
\<close>

theorem wrappers_never_throw:
  "((\<exists>r. adminLogin env linp = Inr r) \<and>
    (adminLogin_try env linp = Inl e \<longrightarrow>
       adminLogin env linp = Inr (Fail (Literal (error_message_or e ''Request failed''))))) \<and>
   ((\<exists>r. preUploadFile env pinp = Inr r) \<and>
    (preUploadFile_try env pinp = Inl e \<longrightarrow>
       preUploadFile env pinp = Inr (Fail (Literal (error_message_or e ''Request failed''))))) \<and>
   ((\<exists>r. uploadFileToOSS env url fl ctype = Inr r) \<and>
    (uploadFileToOSS_try env url fl ctype = Inl e \<longrightarrow>
       uploadFileToOSS env url fl ctype
         = Inr (Fail (Literal (error_message_or e ''Upload failed''))))) \<and>
   ((\<exists>r. listFileVersions env fid pg ps = Inr r) \<and>
    (listFileVersions_try env fid pg ps = Inl e \<longrightarrow>
       listFileVersions env fid pg ps
         = Inr (Fail (Literal (error_message_or e ''Request failed''))))) \<and>
   ((\<exists>r. getDownloadUrl env dinp = Inr r) \<and>
    (getDownloadUrl_try env dinp = Inl e \<longrightarrow>
       getDownloadUrl env dinp = Inr (Fail (Literal (error_message_or e ''Request failed''))))) \<and>
   ((\<exists>r. listSoftwareTemplates env pg ps = Inr r) \<and>
    (listSoftwareTemplates_try env pg ps = Inl e \<longrightarrow>
       listSoftwareTemplates env pg ps
         = Inr (Fail (Literal (error_message_or e ''Request failed''))))) \<and>
   ((\<exists>r. createSoftwareTemplate env cinp = Inr r) \<and>
    (createSoftwareTemplate_try env cinp = Inl e \<longrightarrow>
       createSoftwareTemplate env cinp
         = Inr (Fail (Literal (error_message_or e ''Request failed''))))) \<and>
   ((\<exists>r. updateSoftwareTemplate env tid uinp = Inr r) \<and>
    (updateSoftwareTemplate_try env tid uinp = Inl e \<longrightarrow>
       updateSoftwareTemplate env tid uinp
         = Inr (Fail (Literal (error_message_or e ''Request failed''))))) \<and>
   error_message_or NonError dflt = dflt \<and> error_message_or (ErrorObj m) dflt = m"
  by (simp add: adminLogin_def preUploadFile_def uploadFileToOSS_def listFileVersions_def
        getDownloadUrl_def listSoftwareTemplates_def createSoftwareTemplate_def
        updateSoftwareTemplate_def try_catch_total try_catch_thrown error_message_or_def)

text \<open>
  What is thrown: a rejected \<^verbatim>\<open>fetch\<close> (a transport failure) and a storage that throws
  are thrown by the \<^verbatim>\<open>try\<close> block.
\<close>

lemma fetch_rejection_is_thrown:
  "(fetch_login env \<lparr>req_url = API_BASE_URL env @ ''/api/v1/admin/login'', req_method = ''POST'',
                req_headers = [(''Content-Type'', ''application/json'')], req_body = linp\<rparr> = Inl e
      \<longrightarrow> adminLogin_try env linp = Inl e) \<and>
   (fetch_put env \<lparr>req_url = url, req_method = ''PUT'',
                req_headers = [(''Content-Type'', ctype)], req_body = fl\<rparr> = Inl e
      \<longrightarrow> uploadFileToOSS_try env url fl ctype = Inl e) \<and>
   (getAuthToken env = Inl e \<longrightarrow>
      preUploadFile_try env pinp = Inl e \<and> listFileVersions_try env fid pg ps = Inl e \<and>
      getDownloadUrl_try env dinp = Inl e \<and> listSoftwareTemplates_try env pg ps = Inl e \<and>
      createSoftwareTemplate_try env cinp = Inl e \<and> updateSoftwareTemplate_try env tid uinp = Inl e)"
  by (simp add: adminLogin_try_def uploadFileToOSS_try_def preUploadFile_try_def
         listFileVersions_try_def getDownloadUrl_try_def listSoftwareTemplates_try_def
         createSoftwareTemplate_try_def updateSoftwareTemplate_try_def)

lemma getAuthToken_sample:
  "getAuthToken offline_env = Inr (Some ''t0'')" "getAuthToken negotiated_env = Inr (Some ''t0'')"
  "getAuthToken uploaded_env = Inr (Some ''t0'')" "getAuthToken online_env = Inr (Some ''t0'')"
  "getAuthToken forbidden_env = Inr (Some ''t0'')" "getAuthToken zero_slot_env = Inr (Some ''t0'')"
  by (simp_all add: getAuthToken_def offline_env_def negotiated_env_def uploaded_env_def
        online_env_def forbidden_env_def zero_slot_env_def truthy_string_def)

lemma offline_try:
  "adminLogin_try offline_env linp = Inl (ErrorObj ''Failed to fetch'')"
  "uploadFileToOSS_try (offline_env\<lparr>fetch_put := \<lambda>req. Inl NonError\<rparr>) url fl ctype = Inl NonError"
  "listSoftwareTemplates_try offline_env pg ps = Inl (ErrorObj ''Failed to fetch'')"
  by (simp_all add: adminLogin_try_def uploadFileToOSS_try_def listSoftwareTemplates_try_def
         getAuthToken_sample,
      simp_all add: offline_env_def)

theorem wrappers_never_throw_witness:
  "adminLogin offline_env \<lparr>li_username = ''admin'', li_password = ''pw''\<rparr>
     = Inr (Fail (Literal ''Failed to fetch'')) \<and>
   uploadFileToOSS (offline_env\<lparr>fetch_put := \<lambda>req. Inl NonError\<rparr>) ''https://oss.example/slot''
       empty_file ''application/zip''
     = Inr (Fail (Literal ''Upload failed'')) \<and>
   listSoftwareTemplates offline_env 1 10 = Inr (Fail (Literal ''Failed to fetch''))"
  using wrappers_never_throw
          [where env = offline_env and e = "ErrorObj ''Failed to fetch''"
             and linp = "\<lparr>li_username = ''admin'', li_password = ''pw''\<rparr>"
             and pg = 1 and ps = 10 and dflt = "''Request failed''"]
        wrappers_never_throw
          [where env = "offline_env\<lparr>fetch_put := \<lambda>req. Inl NonError\<rparr>" and e = NonError
             and url = "''https://oss.example/slot''" and fl = empty_file
             and ctype = "''application/zip''" and dflt = "''Upload failed''"]
        offline_try
  by simp

lemma uploadFileToOSS_failures:
  "(fetch_put env \<lparr>req_url = url, req_method = ''PUT'',
                   req_headers = [(''Content-Type'', ctype)], req_body = f\<rparr> = Inl e \<longrightarrow>
      uploadFileToOSS env url f ctype = Inr (Fail (Literal (error_message_or e ''Upload failed'')))) \<and>
   (fetch_put env \<lparr>req_url = url, req_method = ''PUT'',
                   req_headers = [(''Content-Type'', ctype)], req_body = f\<rparr> = Inr response \<and>
    \<not> resp_ok response \<longrightarrow>
      uploadFileToOSS env url f ctype =
        Inr (Fail (Zh_upload_failed
               (Literal (String_of_int (resp_status response) @ '' '' @ resp_statusText response)))))"
  by (simp add: uploadFileToOSS_def uploadFileToOSS_try_def try_catch_def)

text \<open>
  A response that is not ok goes through the decoder: the wrappers of the login and
  software template pages return the decoded message (the PUT to object storage apart,
  which reports the status).
\<close>

lemma wrappers_decode_errors:
  assumes "JSON_parse env [] = None" and "getAuthToken env = Inr token"
  shows
    "(fetch_login env \<lparr>req_url = API_BASE_URL env @ ''/api/v1/admin/login'', req_method = ''POST'',
                 req_headers = [(''Content-Type'', ''application/json'')], req_body = linp\<rparr>
        = Inr r1 \<and> \<not> resp_ok r1 \<and> resp_text r1 = Inr body \<longrightarrow>
      adminLogin env linp = Inr (Fail (Literal (error_message_trimmed (JSON_parse env) body)))) \<and>
     (fetch_preupload env \<lparr>req_url = API_BASE_URL env @ ''/api/v1/admin/files/preupload'',
                 req_method = ''POST'', req_headers = auth_headers token, req_body = pinp\<rparr>
        = Inr r2 \<and> \<not> resp_ok r2 \<and> resp_text r2 = Inr body \<longrightarrow>
      preUploadFile env pinp = Inr (Fail (Literal (error_message_trimmed (JSON_parse env) body)))) \<and>
     (fetch_create env \<lparr>req_url = API_BASE_URL env @ ''/api/v1/admin/software-templates'',
                 req_method = ''POST'', req_headers = auth_headers token, req_body = cinp\<rparr>
        = Inr r3 \<and> \<not> resp_ok r3 \<and> resp_text r3 = Inr body \<longrightarrow>
      createSoftwareTemplate env cinp
        = Inr (Fail (Literal (error_message_trimmed (JSON_parse env) body)))) \<and>
     (fetch_update env \<lparr>req_url = API_BASE_URL env @ ''/api/v1/admin/software-templates/''
                                   @ String_of_int tid,
                 req_method = ''PUT'', req_headers = auth_headers token, req_body = uinp\<rparr>
        = Inr r4 \<and> \<not> resp_ok r4 \<and> resp_text r4 = Inr body \<longrightarrow>
      updateSoftwareTemplate env tid uinp
        = Inr (Fail (Literal (error_message_trimmed (JSON_parse env) body)))) \<and>
     (fetch_templates env \<lparr>req_url = API_BASE_URL env @ ''/api/v1/admin/software-templates?page=''
                                   @ String_of_int pg @ ''&pageSize='' @ String_of_int ps,
                 req_method = ''GET'', req_headers = auth_headers token, req_body = ()\<rparr>
        = Inr r5 \<and> \<not> resp_ok r5 \<and> resp_text r5 = Inr body \<longrightarrow>
      listSoftwareTemplates env pg ps
        = Inr (Fail (Literal (error_message_trimmed (JSON_parse env) body))))"
  using assms
  by (auto simp: adminLogin_def adminLogin_try_def preUploadFile_def preUploadFile_try_def
        createSoftwareTemplate_def createSoftwareTemplate_try_def updateSoftwareTemplate_def
        updateSoftwareTemplate_try_def listSoftwareTemplates_def listSoftwareTemplates_try_def
        try_catch_def parseApiErrorMessage_decodes)

subsection \<open>The log of calls\<close>

lemma loadVersionsForFile_calls:
  "\<exists>rest. calls (fst (loadVersionsForFile env fileId page pageSize v)) = calls v @ rest"
  by (simp add: loadVersionsForFile_def log_call_def Let_def split: sum.split api_result.split)

lemma selectTemplate_calls:
  "\<exists>rest. calls (fst (selectTemplate env v0 t v)) = calls v @ rest"
proof (cases "t = None \<or> t_archiveFileId (the t) = 0")
  case True
  then show ?thesis
    by (auto simp: selectTemplate_def clearVersions_def Let_def split: option.split)
next
  case False
  then obtain tt where t: "t = Some tt" and nz: "t_archiveFileId tt \<noteq> 0" by auto
  from loadVersionsForFile_calls
  obtain rest where
    "calls (fst (loadVersionsForFile env (t_archiveFileId tt) 1 (pg_pageSize (versionsPageInfo v0))
        (v\<lparr>selectedTemplateId := Some (t_id tt), versions := [],
            versionsPageInfo := (versionsPageInfo v)\<lparr>pg_page := 1, pg_total := 0\<rparr>\<rparr>)))
     = calls (v\<lparr>selectedTemplateId := Some (t_id tt), versions := [],
            versionsPageInfo := (versionsPageInfo v)\<lparr>pg_page := 1, pg_total := 0\<rparr>\<rparr>) @ rest"
    by blast
  then show ?thesis
    using t nz by (simp add: selectTemplate_def Let_def)
qed

lemma selectTemplate_calls_after:
  "calls V = calls v @ pre \<Longrightarrow> \<exists>rest. calls (fst (selectTemplate env v0 t V)) = calls v @ rest"
  using selectTemplate_calls [of env v0 t V] by auto

lemma loadTemplates_calls:
  "\<exists>rest. calls (fst (loadTemplates env v0 v)) = calls v @ rest"
proof (cases "listSoftwareTemplates env (pg_page (pageInfo v0)) (pg_pageSize (pageInfo v0))")
  case (Inl e)
  then show ?thesis by (simp add: loadTemplates_def log_call_def Let_def)
next
  case (Inr result)
  show ?thesis
  proof (cases result)
    case (Fail m)
    with Inr show ?thesis by (simp add: loadTemplates_def log_call_def Let_def)
  next
    case (Ok d)
    with Inr show ?thesis
      by (simp add: loadTemplates_def log_call_def Let_def)
         (rule selectTemplate_calls_after, simp)
  qed
qed

lemma loadTemplates_calls_after1:
  "calls V = calls v @ [c] \<Longrightarrow>
   \<exists>rest. calls (fst (loadTemplates env v0 V)) = calls v @ c # rest"
  using loadTemplates_calls [of env v0 V] by auto

subsection \<open>The three steps before the registration\<close>

lemma upload_new_negotiation_fails:
  assumes "calculateFileHash env f = Inr h"
    and "preUploadFile env (preupload_input_of f h) = Inr (Fail m)"
  shows "upload_new env f v =
           (v\<lparr>message := error_message (Zh_preupload_failed m), uploadProgress := 0,
              isUploading := False, calls := calls v @ [PreUploadFile (preupload_input_of f h)]\<rparr>,
            Returned)"
  using assms by (simp add: upload_new_def log_call_def Let_def)

lemma upload_new_put_fails:
  assumes "calculateFileHash env f = Inr h"
    and "preUploadFile env (preupload_input_of f h) = Inr (Ok data)"
    and "uploadFileToOSS env (pr_uploadUrl data) f (pr_contentType data) = Inr (Fail m)"
  shows "upload_new env f v =
           (v\<lparr>message := error_message (Zh_upload_failed m), uploadProgress := 0,
              isUploading := False,
              calls := calls v @ [PreUploadFile (preupload_input_of f h),
                                  UploadFileToOSS (pr_uploadUrl data) f (pr_contentType data)]\<rparr>,
            Returned)"
  using assms by (simp add: upload_new_def log_call_def Let_def)

lemma upload_new_succeeds:
  assumes "calculateFileHash env f = Inr h"
    and "preUploadFile env (preupload_input_of f h) = Inr (Ok data)"
    and "uploadFileToOSS env (pr_uploadUrl data) f (pr_contentType data) = Inr (Ok u)"
  shows "upload_new env f v =
           (v\<lparr>uploadProgress := 80, isUploading := True,
              calls := calls v @ [PreUploadFile (preupload_input_of f h),
                                  UploadFileToOSS (pr_uploadUrl data) f (pr_contentType data)]\<rparr>,
            Proceed (Some (pr_fileId data)))"
  using assms by (simp add: upload_new_def log_call_def Let_def)

lemma upload_steps_new:
  assumes "uploadMode v0 = New" and "selectedFile v0 = Some f"
    and "calculateFileHash env f = Inr h"
    and "preUploadFile env (preupload_input_of f h) = Inr (Ok data)"
    and "uploadFileToOSS env (pr_uploadUrl data) f (pr_contentType data) = Inr (Ok u)"
  shows "upload_steps env v0 v =
           (v\<lparr>uploadProgress := 80, isUploading := True,
              calls := calls v @ [PreUploadFile (preupload_input_of f h),
                                  UploadFileToOSS (pr_uploadUrl data) f (pr_contentType data)]\<rparr>,
            Proceed (Some (pr_fileId data)))"
  using assms by (simp add: upload_steps_def upload_new_succeeds)

lemma parseInt_Nil [simp]: "parseInt [] = None"
  by (simp add: parseInt_def)

lemma parseInt_examples:
  "parseInt ''0'' = Some 0" "parseInt ''abc'' = None" "parseInt ''12abc'' = Some 12"
  "parseInt ''-5'' = Some (- 5)"
  by (simp_all add: parseInt_def is_ws_def is_digit_def digits_value_def)

lemma upload_steps_existing:
  assumes "uploadMode v0 = Existing"
  shows "upload_steps env v0 v =
           (v, Proceed (case parseInt (trim (fd_archiveFileId (formData v0))) of
                          None \<Rightarrow> None
                        | Some n \<Rightarrow> if n > 0 then Some n else None))"
  using assms by (simp add: upload_steps_def split: option.split)

subsection \<open>The sample environments and states\<close>

lemma hash_of_empty_file:
  "calculateFileHash offline_env empty_file
     = Inr ''e3b0c44298fc1c149afbf4c8996fb92427ae41e4649b934ca495991b7852b855''"
  by (simp add: calculateFileHash_def empty_file_def offline_env_def sha256_of_empty_def
        padStart2_def toString16.simps digit_char_def)

lemma subtle_digest_sample:
  "subtle_digest negotiated_env = subtle_digest offline_env"
  "subtle_digest uploaded_env = subtle_digest offline_env"
  "subtle_digest online_env = subtle_digest offline_env"
  "subtle_digest forbidden_env = subtle_digest offline_env"
  "subtle_digest zero_slot_env = subtle_digest offline_env"
  by (simp_all add: negotiated_env_def uploaded_env_def online_env_def forbidden_env_def
        zero_slot_env_def)

lemma calculateFileHash_same_digest:
  "subtle_digest e1 = subtle_digest e2 \<Longrightarrow> calculateFileHash e1 f = calculateFileHash e2 f"
  by (simp add: calculateFileHash_def split: sum.split)

lemma hash_sample:
  "calculateFileHash negotiated_env empty_file
     = Inr ''e3b0c44298fc1c149afbf4c8996fb92427ae41e4649b934ca495991b7852b855''"
  "calculateFileHash uploaded_env empty_file
     = Inr ''e3b0c44298fc1c149afbf4c8996fb92427ae41e4649b934ca495991b7852b855''"
  "calculateFileHash online_env empty_file
     = Inr ''e3b0c44298fc1c149afbf4c8996fb92427ae41e4649b934ca495991b7852b855''"
  "calculateFileHash forbidden_env empty_file
     = Inr ''e3b0c44298fc1c149afbf4c8996fb92427ae41e4649b934ca495991b7852b855''"
  "calculateFileHash zero_slot_env empty_file
     = Inr ''e3b0c44298fc1c149afbf4c8996fb92427ae41e4649b934ca495991b7852b855''"
  by (simp_all add: hash_of_empty_file
        calculateFileHash_same_digest [OF subtle_digest_sample(1)]
        calculateFileHash_same_digest [OF subtle_digest_sample(2)]
        calculateFileHash_same_digest [OF subtle_digest_sample(3)]
        calculateFileHash_same_digest [OF subtle_digest_sample(4)]
        calculateFileHash_same_digest [OF subtle_digest_sample(5)])

lemma preUploadFile_sample:
  "preUploadFile offline_env inp = Inr (Fail (Literal ''Failed to fetch''))"
  "preUploadFile negotiated_env inp = Inr (Ok sample_slot)"
  "preUploadFile uploaded_env inp = Inr (Ok sample_slot)"
  "preUploadFile online_env inp = Inr (Ok sample_slot)"
  "preUploadFile forbidden_env inp = Inr (Ok sample_slot)"
  "preUploadFile zero_slot_env inp = Inr (Ok (sample_slot\<lparr>pr_fileId := 0\<rparr>))"
  by (simp_all add: preUploadFile_def preUploadFile_try_def try_catch_def getAuthToken_sample,
      simp_all add: offline_env_def negotiated_env_def uploaded_env_def online_env_def
        forbidden_env_def zero_slot_env_def ok_response_def error_message_or_def)

lemma fetch_put_sample:
  "fetch_put negotiated_env req = Inl (ErrorObj ''Failed to fetch'')"
  "fetch_put forbidden_env req = Inr (error_response 403 [])"
  by (simp_all add: negotiated_env_def forbidden_env_def offline_env_def)

lemma uploadFileToOSS_sample:
  "uploadFileToOSS negotiated_env url f ctype = Inr (Fail (Literal ''Failed to fetch''))"
  "uploadFileToOSS forbidden_env url f ctype = Inr (Fail (Zh_upload_failed (Literal ''403 '')))"
  "uploadFileToOSS uploaded_env url f ctype = Inr (Ok ())"
  "uploadFileToOSS online_env url f ctype = Inr (Ok ())"
  "uploadFileToOSS zero_slot_env url f ctype = Inr (Ok ())"
  by (simp_all add: uploadFileToOSS_def uploadFileToOSS_try_def try_catch_def
        negotiated_env_def uploaded_env_def online_env_def forbidden_env_def zero_slot_env_def
        offline_env_def ok_response_def error_response_def error_message_or_def
        String_of_int_def toString10.simps digit_char_def)

lemma sample_slot_fields:
  "pr_uploadUrl sample_slot = ''https://oss.example/slot''"
  "pr_contentType sample_slot = ''application/zip''"
  "pr_fileId sample_slot = 42" "pr_versionNumber sample_slot = 3"
  by (simp_all add: sample_slot_def)

lemma loaded_view_fields:
  "calls loaded_view = []" "selectedTemplateId loaded_view = Some 1"
  "pageInfo loaded_view = \<lparr>pg_page = 1, pg_pageSize = 10, pg_total = 0\<rparr>"
  by (simp_all add: loaded_view_def initial_view_def)

lemma create_view_fields:
  "uploadMode create_view = New" "selectedFile create_view = Some empty_file"
  "trim (fd_name (formData create_view)) = ''starter''" "calls create_view = []"
  "fd_description (formData create_view) = []"
  by (simp_all add: create_view_def loaded_view_def initial_view_def trim_def is_ws_def)

lemma edit_view_fields:
  "uploadMode edit_view = New" "selectedFile edit_view = Some empty_file"
  "editingTemplate edit_view = Some sample_template" "calls edit_view = []"
  "fd_name (formData edit_view) = ''alpha''"
  "fd_description (formData edit_view) = ''first template''"
  by (simp_all add: edit_view_def openEditModal_def loaded_view_def initial_view_def
        sample_template_def)

lemma optional_string_examples:
  "optional_string [] = None" "optional_string ''alpha'' = Some ''alpha''"
  "optional_string ''first template'' = Some ''first template''"
  by (simp_all add: optional_string_def trim_def is_ws_def)

subsection \<open>Failure of the negotiation\<close>

text \<open>
  Claim C5. Take an upload attempt: the mode is \<^verbatim>\<open>new\<close>, a file is selected and its hash
  has been computed. If \<^verbatim>\<open>preUploadFile\<close> returns the failure \<open>m\<close>, then both handlers
  (create with a non-blank name, update with a template being edited) end in the failed
  state: the message is the error "pre-upload failed: m", the upload flag is off and
  the progress is 0. The log has grown by the call of \<^verbatim>\<open>preUploadFile\<close> alone: neither
  the PUT nor the registrar nor any later step was invoked.
\<close>

theorem negotiation_failure_aborts:
  assumes "uploadMode v0 = New" and "selectedFile v0 = Some f"
    and "calculateFileHash env f = Inr h"
    and "preUploadFile env (preupload_input_of f h) = Inr (Fail m)"
  shows
    "(trim (fd_name (formData v0)) \<noteq> [] \<longrightarrow>
        handleUploadAndCreate env v0 =
          (v0\<lparr>message := error_message (Zh_preupload_failed m), uploadProgress := 0,
              isUploading := False,
              calls := calls v0 @ [PreUploadFile (preupload_input_of f h)]\<rparr>, None)) \<and>
     (editingTemplate v0 \<noteq> None \<longrightarrow>
        handleUploadAndUpdate env v0 =
          (v0\<lparr>message := error_message (Zh_preupload_failed m), uploadProgress := 0,
              isUploading := False,
              calls := calls v0 @ [PreUploadFile (preupload_input_of f h)]\<rparr>, None))"
  using assms
  by (auto simp: handleUploadAndCreate_def handleUploadAndUpdate_def upload_steps_def
        upload_new_negotiation_fails Let_def)

theorem negotiation_failure_aborts_witness:
  "handleUploadAndCreate offline_env create_view =
     (create_view\<lparr>message := error_message (Zh_preupload_failed (Literal ''Failed to fetch'')),
        uploadProgress := 0, isUploading := False,
        calls := [PreUploadFile (preupload_input_of empty_file
                    ''e3b0c44298fc1c149afbf4c8996fb92427ae41e4649b934ca495991b7852b855'')]\<rparr>, None) \<and>
   handleUploadAndUpdate offline_env edit_view =
     (edit_view\<lparr>message := error_message (Zh_preupload_failed (Literal ''Failed to fetch'')),
        uploadProgress := 0, isUploading := False,
        calls := [PreUploadFile (preupload_input_of empty_file
                    ''e3b0c44298fc1c149afbf4c8996fb92427ae41e4649b934ca495991b7852b855'')]\<rparr>, None)"
  using negotiation_failure_aborts
          [OF create_view_fields(1,2) hash_of_empty_file preUploadFile_sample(1)]
        negotiation_failure_aborts
          [OF edit_view_fields(1,2) hash_of_empty_file preUploadFile_sample(1)]
        create_view_fields edit_view_fields
  by simp

subsection \<open>Failure of the PUT\<close>

text \<open>
  Claim C6. Take an upload attempt whose negotiation succeeded with the slot \<open>data\<close>. If
  the PUT to the slot fails, by a rejected \<^verbatim>\<open>fetch\<close> (a network error) or by a response
  that is not ok (a status outside 2xx), then \<^verbatim>\<open>uploadFileToOSS\<close> returns a failure
  \<open>m\<close>, and both handlers end with the error "upload failed: m" and with a log that has
  grown by the calls of \<^verbatim>\<open>preUploadFile\<close> and \<^verbatim>\<open>uploadFileToOSS\<close> alone: the registrar
  was not invoked.
\<close>

theorem put_failure_skips_registration:
  assumes "uploadMode v0 = New" and "selectedFile v0 = Some f"
    and "calculateFileHash env f = Inr h"
    and "preUploadFile env (preupload_input_of f h) = Inr (Ok data)"
    and "fetch_put env \<lparr>req_url = pr_uploadUrl data, req_method = ''PUT'',
                        req_headers = [(''Content-Type'', pr_contentType data)],
                        req_body = f\<rparr> = Inl e
         \<or> (fetch_put env \<lparr>req_url = pr_uploadUrl data, req_method = ''PUT'',
                            req_headers = [(''Content-Type'', pr_contentType data)],
                            req_body = f\<rparr> = Inr response
            \<and> \<not> resp_ok response)"
  shows
    "\<exists>m. uploadFileToOSS env (pr_uploadUrl data) f (pr_contentType data) = Inr (Fail m) \<and>
       (trim (fd_name (formData v0)) \<noteq> [] \<longrightarrow>
          handleUploadAndCreate env v0 =
            (v0\<lparr>message := error_message (Zh_upload_failed m), uploadProgress := 0,
                isUploading := False,
                calls := calls v0 @ [PreUploadFile (preupload_input_of f h),
                                     UploadFileToOSS (pr_uploadUrl data) f (pr_contentType data)]\<rparr>,
             None)) \<and>
       (editingTemplate v0 \<noteq> None \<longrightarrow>
          handleUploadAndUpdate env v0 =
            (v0\<lparr>message := error_message (Zh_upload_failed m), uploadProgress := 0,
                isUploading := False,
                calls := calls v0 @ [PreUploadFile (preupload_input_of f h),
                                     UploadFileToOSS (pr_uploadUrl data) f (pr_contentType data)]\<rparr>,
             None))"
proof -
  from assms(5) obtain m where
    put: "uploadFileToOSS env (pr_uploadUrl data) f (pr_contentType data) = Inr (Fail m)"
    using uploadFileToOSS_failures [of env "pr_uploadUrl data" "pr_contentType data" f e response]
    by blast
  note up = upload_new_put_fails [OF assms(3,4) put]
  have "trim (fd_name (formData v0)) \<noteq> [] \<longrightarrow>
          handleUploadAndCreate env v0 =
            (v0\<lparr>message := error_message (Zh_upload_failed m), uploadProgress := 0,
                isUploading := False,
                calls := calls v0 @ [PreUploadFile (preupload_input_of f h),
                                     UploadFileToOSS (pr_uploadUrl data) f (pr_contentType data)]\<rparr>,
             None)"
    using assms(1,2) by (simp add: handleUploadAndCreate_def upload_steps_def up Let_def)
  moreover have "editingTemplate v0 \<noteq> None \<longrightarrow>
          handleUploadAndUpdate env v0 =
            (v0\<lparr>message := error_message (Zh_upload_failed m), uploadProgress := 0,
                isUploading := False,
                calls := calls v0 @ [PreUploadFile (preupload_input_of f h),
                                     UploadFileToOSS (pr_uploadUrl data) f (pr_contentType data)]\<rparr>,
             None)"
    using assms(1,2) by (auto simp: handleUploadAndUpdate_def upload_steps_def up Let_def)
  ultimately show ?thesis using put by blast
qed

theorem put_failure_skips_registration_witness:
  "handleUploadAndCreate negotiated_env create_view =
     (create_view\<lparr>message := error_message (Zh_upload_failed (Literal ''Failed to fetch'')),
        uploadProgress := 0, isUploading := False,
        calls := [PreUploadFile (preupload_input_of empty_file
                    ''e3b0c44298fc1c149afbf4c8996fb92427ae41e4649b934ca495991b7852b855''),
                  UploadFileToOSS ''https://oss.example/slot'' empty_file ''application/zip'']\<rparr>,
      None) \<and>
   handleUploadAndUpdate forbidden_env edit_view =
     (edit_view\<lparr>message := error_message (Zh_upload_failed (Zh_upload_failed (Literal ''403 ''))),
        uploadProgress := 0, isUploading := False,
        calls := [PreUploadFile (preupload_input_of empty_file
                    ''e3b0c44298fc1c149afbf4c8996fb92427ae41e4649b934ca495991b7852b855''),
                  UploadFileToOSS ''https://oss.example/slot'' empty_file ''application/zip'']\<rparr>,
      None)"
proof -
  have nok: "\<not> resp_ok (error_response 403 [] :: unit response)"
    by (simp add: error_response_def)
  have a: "fetch_put negotiated_env
             \<lparr>req_url = pr_uploadUrl sample_slot, req_method = ''PUT'',
              req_headers = [(''Content-Type'', pr_contentType sample_slot)],
              req_body = empty_file\<rparr> = Inl (ErrorObj ''Failed to fetch'')
           \<or> (fetch_put negotiated_env
                 \<lparr>req_url = pr_uploadUrl sample_slot, req_method = ''PUT'',
                  req_headers = [(''Content-Type'', pr_contentType sample_slot)],
                  req_body = empty_file\<rparr> = Inr (error_response 403 [])
               \<and> \<not> resp_ok (error_response 403 [] :: unit response))"
    by (simp add: fetch_put_sample)
  have b: "fetch_put forbidden_env
             \<lparr>req_url = pr_uploadUrl sample_slot, req_method = ''PUT'',
              req_headers = [(''Content-Type'', pr_contentType sample_slot)],
              req_body = empty_file\<rparr> = Inl (ErrorObj ''Failed to fetch'')
           \<or> (fetch_put forbidden_env
                 \<lparr>req_url = pr_uploadUrl sample_slot, req_method = ''PUT'',
                  req_headers = [(''Content-Type'', pr_contentType sample_slot)],
                  req_body = empty_file\<rparr> = Inr (error_response 403 [])
               \<and> \<not> resp_ok (error_response 403 [] :: unit response))"
    using nok by (simp add: fetch_put_sample)
  from put_failure_skips_registration
         [OF create_view_fields(1,2) hash_sample(1) preUploadFile_sample(2) a]
  have c: "handleUploadAndCreate negotiated_env create_view =
     (create_view\<lparr>message := error_message (Zh_upload_failed (Literal ''Failed to fetch'')),
        uploadProgress := 0, isUploading := False,
        calls := [PreUploadFile (preupload_input_of empty_file
                    ''e3b0c44298fc1c149afbf4c8996fb92427ae41e4649b934ca495991b7852b855''),
                  UploadFileToOSS ''https://oss.example/slot'' empty_file ''application/zip'']\<rparr>,
      None)"
    using create_view_fields sample_slot_fields uploadFileToOSS_sample(1) by auto
  from put_failure_skips_registration
         [OF edit_view_fields(1,2) hash_sample(4) preUploadFile_sample(5) b]
  have d: "handleUploadAndUpdate forbidden_env edit_view =
     (edit_view\<lparr>message := error_message (Zh_upload_failed (Zh_upload_failed (Literal ''403 ''))),
        uploadProgress := 0, isUploading := False,
        calls := [PreUploadFile (preupload_input_of empty_file
                    ''e3b0c44298fc1c149afbf4c8996fb92427ae41e4649b934ca495991b7852b855''),
                  UploadFileToOSS ''https://oss.example/slot'' empty_file ''application/zip'']\<rparr>,
      None)"
    using edit_view_fields sample_slot_fields uploadFileToOSS_sample(2) by auto
  from c d show ?thesis by (rule conjI)
qed

subsection \<open>The registrar call\<close>

lemma create_after_upload:
  assumes "trim (fd_name (formData v0)) \<noteq> []"
    and "upload_steps env v0 (v0\<lparr>message := None\<rparr>) = (v', Proceed a)"
  shows "\<exists>rest. calls (fst (handleUploadAndCreate env v0)) =
           calls v' @ [CreateSoftwareTemplate
                         \<lparr>ci_name = trim (fd_name (formData v0)),
                          ci_description = optional_string (fd_description (formData v0)),
                          ci_archiveFileId = optional_id a\<rparr>] @ rest"
proof -
  let ?input = "\<lparr>ci_name = trim (fd_name (formData v0)),
                  ci_description = optional_string (fd_description (formData v0)),
                  ci_archiveFileId = optional_id a\<rparr>"
  show ?thesis
  proof (cases "createSoftwareTemplate env ?input")
    case (Inl e)
    with assms show ?thesis
      by (simp add: handleUploadAndCreate_def log_call_def Let_def)
  next
    case (Inr result)
    show ?thesis
    proof (cases result)
      case (Fail m)
      with Inr assms show ?thesis
        by (simp add: handleUploadAndCreate_def log_call_def Let_def)
    next
      case (Ok d)
      with Inr assms show ?thesis
        by (simp add: handleUploadAndCreate_def log_call_def Let_def)
           (rule loadTemplates_calls_after1,
            simp add: closeCreateModal_def resetForm_def)
    qed
  qed
qed

lemma update_after_upload:
  assumes "editingTemplate v0 = Some t"
    and "upload_steps env v0 (v0\<lparr>message := None\<rparr>) = (v', Proceed a)"
  shows "\<exists>rest. calls (fst (handleUploadAndUpdate env v0)) =
           calls v' @ [UpdateSoftwareTemplate (t_id t)
                         \<lparr>ui_name = optional_string (fd_name (formData v0)),
                          ui_description = optional_string (fd_description (formData v0)),
                          ui_archiveFileId = optional_id a\<rparr>] @ rest"
proof -
  let ?input = "\<lparr>ui_name = optional_string (fd_name (formData v0)),
                  ui_description = optional_string (fd_description (formData v0)),
                  ui_archiveFileId = optional_id a\<rparr>"
  show ?thesis
  proof (cases "updateSoftwareTemplate env (t_id t) ?input")
    case (Inl e)
    with assms show ?thesis
      by (simp add: handleUploadAndUpdate_def log_call_def Let_def)
  next
    case (Inr result)
    show ?thesis
    proof (cases result)
      case (Fail m)
      with Inr assms show ?thesis
        by (simp add: handleUploadAndUpdate_def log_call_def Let_def)
    next
      case (Ok d)
      with Inr assms show ?thesis
        by (simp add: handleUploadAndUpdate_def log_call_def Let_def)
           (rule loadTemplates_calls_after1,
            simp add: closeEditModal_def resetForm_def)
    qed
  qed
qed

text \<open>
  Claim C4. Take an upload attempt in which \<^verbatim>\<open>preUploadFile\<close> succeeds with the slot
  \<open>data\<close> and \<^verbatim>\<open>uploadFileToOSS\<close> succeeds. If the file id of the slot is not 0 (42 in the
  claim; the version number is free) the registrar is the next wrapper invoked, and the
  \<^verbatim>\<open>archiveFileId\<close> of its request body is that file id: \<^verbatim>\<open>createSoftwareTemplate\<close> in
  the create handler (the name being non-blank) and \<^verbatim>\<open>updateSoftwareTemplate\<close> in the
  update handler (\<open>t\<close> being the template edited).
\<close>

theorem registrar_receives_negotiated_file_id:
  assumes "uploadMode v0 = New" and "selectedFile v0 = Some f"
    and "calculateFileHash env f = Inr h"
    and "preUploadFile env (preupload_input_of f h) = Inr (Ok data)"
    and "pr_fileId data \<noteq> 0"
    and "uploadFileToOSS env (pr_uploadUrl data) f (pr_contentType data) = Inr (Ok u)"
  shows
    "(trim (fd_name (formData v0)) \<noteq> [] \<longrightarrow>
        (\<exists>rest. calls (fst (handleUploadAndCreate env v0)) =
           calls v0 @ [PreUploadFile (preupload_input_of f h),
                       UploadFileToOSS (pr_uploadUrl data) f (pr_contentType data),
                       CreateSoftwareTemplate
                         \<lparr>ci_name = trim (fd_name (formData v0)),
                          ci_description = optional_string (fd_description (formData v0)),
                          ci_archiveFileId = Some (pr_fileId data)\<rparr>] @ rest)) \<and>
     (editingTemplate v0 = Some t \<longrightarrow>
        (\<exists>rest. calls (fst (handleUploadAndUpdate env v0)) =
           calls v0 @ [PreUploadFile (preupload_input_of f h),
                       UploadFileToOSS (pr_uploadUrl data) f (pr_contentType data),
                       UpdateSoftwareTemplate (t_id t)
                         \<lparr>ui_name = optional_string (fd_name (formData v0)),
                          ui_description = optional_string (fd_description (formData v0)),
                          ui_archiveFileId = Some (pr_fileId data)\<rparr>] @ rest))"
proof (intro conjI impI)
  note up = upload_steps_new [OF assms(1,2,3,4,6), of "v0\<lparr>message := None\<rparr>"]
  have oid: "optional_id (Some (pr_fileId data)) = Some (pr_fileId data)"
    using assms(5) by (simp add: optional_id_def truthy_int_def)
  {
    assume n: "trim (fd_name (formData v0)) \<noteq> []"
    from create_after_upload [OF n up] oid
    show "\<exists>rest. calls (fst (handleUploadAndCreate env v0)) =
           calls v0 @ [PreUploadFile (preupload_input_of f h),
                       UploadFileToOSS (pr_uploadUrl data) f (pr_contentType data),
                       CreateSoftwareTemplate
                         \<lparr>ci_name = trim (fd_name (formData v0)),
                          ci_description = optional_string (fd_description (formData v0)),
                          ci_archiveFileId = Some (pr_fileId data)\<rparr>] @ rest"
      by simp
  }
  {
    assume e: "editingTemplate v0 = Some t"
    from update_after_upload [OF e up] oid
    show "\<exists>rest. calls (fst (handleUploadAndUpdate env v0)) =
           calls v0 @ [PreUploadFile (preupload_input_of f h),
                       UploadFileToOSS (pr_uploadUrl data) f (pr_contentType data),
                       UpdateSoftwareTemplate (t_id t)
                         \<lparr>ui_name = optional_string (fd_name (formData v0)),
                          ui_description = optional_string (fd_description (formData v0)),
                          ui_archiveFileId = Some (pr_fileId data)\<rparr>] @ rest"
      by simp
  }
qed

theorem registrar_receives_negotiated_file_id_witness:
  "pr_fileId sample_slot = 42 \<and> pr_versionNumber sample_slot = 3 \<and>
   (\<exists>rest. calls (fst (handleUploadAndCreate uploaded_env create_view)) =
      [PreUploadFile (preupload_input_of empty_file
         ''e3b0c44298fc1c149afbf4c8996fb92427ae41e4649b934ca495991b7852b855''),
       UploadFileToOSS ''https://oss.example/slot'' empty_file ''application/zip'',
       CreateSoftwareTemplate
         \<lparr>ci_name = ''starter'', ci_description = None, ci_archiveFileId = Some 42\<rparr>] @ rest) \<and>
   (\<exists>rest. calls (fst (handleUploadAndUpdate uploaded_env edit_view)) =
      [PreUploadFile (preupload_input_of empty_file
         ''e3b0c44298fc1c149afbf4c8996fb92427ae41e4649b934ca495991b7852b855''),
       UploadFileToOSS ''https://oss.example/slot'' empty_file ''application/zip'',
       UpdateSoftwareTemplate 1
         \<lparr>ui_name = Some ''alpha'', ui_description = Some ''first template'',
          ui_archiveFileId = Some 42\<rparr>] @ rest)"
proof -
  have nz: "pr_fileId sample_slot \<noteq> 0" by (simp add: sample_slot_fields)
  have t: "t_id sample_template = 1" by (simp add: sample_template_def)
  from registrar_receives_negotiated_file_id
         [OF create_view_fields(1,2) hash_sample(2) preUploadFile_sample(3) nz
             uploadFileToOSS_sample(3), of sample_template]
       registrar_receives_negotiated_file_id
         [OF edit_view_fields(1,2) hash_sample(2) preUploadFile_sample(3) nz
             uploadFileToOSS_sample(3), of sample_template]
       create_view_fields edit_view_fields sample_slot_fields optional_string_examples t
  show ?thesis by simp
qed

subsection \<open>Registration without an archive link\<close>

text \<open>
  Claim C10. In both handlers, if the negotiated file id is 0 (negotiation and PUT having
  succeeded), or if the mode is \<^verbatim>\<open>existing\<close> and the trimmed text of the file id field
  does not parse to an integer above 0, then the three steps end without a message, the
  registrar is the next wrapper invoked, and its request body has no \<^verbatim>\<open>archiveFileId\<close>.
\<close>

theorem archive_link_silently_omitted:
  assumes
    "(uploadMode v0 = New \<and> selectedFile v0 = Some f \<and> calculateFileHash env f = Inr h \<and>
      preUploadFile env (preupload_input_of f h) = Inr (Ok data) \<and> pr_fileId data = 0 \<and>
      uploadFileToOSS env (pr_uploadUrl data) f (pr_contentType data) = Inr (Ok u))
     \<or> (uploadMode v0 = Existing \<and>
         (\<forall>n. parseInt (trim (fd_archiveFileId (formData v0))) = Some n \<longrightarrow> n \<le> 0))"
  shows
    "\<exists>v' a. upload_steps env v0 (v0\<lparr>message := None\<rparr>) = (v', Proceed a) \<and>
        optional_id a = None \<and> message v' = None \<and>
        (trim (fd_name (formData v0)) \<noteq> [] \<longrightarrow>
           (\<exists>rest. calls (fst (handleUploadAndCreate env v0)) =
              calls v' @ [CreateSoftwareTemplate
                            \<lparr>ci_name = trim (fd_name (formData v0)),
                             ci_description = optional_string (fd_description (formData v0)),
                             ci_archiveFileId = None\<rparr>] @ rest)) \<and>
        (editingTemplate v0 = Some t \<longrightarrow>
           (\<exists>rest. calls (fst (handleUploadAndUpdate env v0)) =
              calls v' @ [UpdateSoftwareTemplate (t_id t)
                            \<lparr>ui_name = optional_string (fd_name (formData v0)),
                             ui_description = optional_string (fd_description (formData v0)),
                             ui_archiveFileId = None\<rparr>] @ rest))"
proof -
  from assms obtain v' a where
    up: "upload_steps env v0 (v0\<lparr>message := None\<rparr>) = (v', Proceed a)"
    and oid: "optional_id a = None" and msg: "message v' = None"
  proof
    assume new: "uploadMode v0 = New \<and> selectedFile v0 = Some f \<and> calculateFileHash env f = Inr h \<and>
      preUploadFile env (preupload_input_of f h) = Inr (Ok data) \<and> pr_fileId data = 0 \<and>
      uploadFileToOSS env (pr_uploadUrl data) f (pr_contentType data) = Inr (Ok u)"
    assume that: "\<And>v' a. upload_steps env v0 (v0\<lparr>message := None\<rparr>) = (v', Proceed a) \<Longrightarrow>
                    optional_id a = None \<Longrightarrow> message v' = None \<Longrightarrow> thesis"
    let ?v = "v0\<lparr>message := None, uploadProgress := 80, isUploading := True,
             calls := calls v0 @ [PreUploadFile (preupload_input_of f h),
                                  UploadFileToOSS (pr_uploadUrl data) f (pr_contentType data)]\<rparr>"
    from new have s: "upload_steps env v0 (v0\<lparr>message := None\<rparr>)
                        = (?v, Proceed (Some (pr_fileId data)))"
      by (simp add: upload_steps_new [where u = u])
    from new have o: "optional_id (Some (pr_fileId data)) = None"
      by (simp add: optional_id_def truthy_int_def)
    have m: "message ?v = None" by simp
    show thesis by (rule that [OF s o m])
  next
    assume ex: "uploadMode v0 = Existing \<and>
         (\<forall>n. parseInt (trim (fd_archiveFileId (formData v0))) = Some n \<longrightarrow> n \<le> 0)"
    assume that: "\<And>v' a. upload_steps env v0 (v0\<lparr>message := None\<rparr>) = (v', Proceed a) \<Longrightarrow>
                    optional_id a = None \<Longrightarrow> message v' = None \<Longrightarrow> thesis"
    let ?a = "case parseInt (trim (fd_archiveFileId (formData v0))) of
                None \<Rightarrow> None | Some n \<Rightarrow> if n > 0 then Some n else None"
    from ex have a: "?a = None"
      by (auto split: option.split)
    from ex have s: "upload_steps env v0 (v0\<lparr>message := None\<rparr>)
                       = (v0\<lparr>message := None\<rparr>, Proceed ?a)"
      by (simp add: upload_steps_existing)
    from a have o: "optional_id ?a = None"
      by (simp add: optional_id_def truthy_int_def)
    have m: "message (v0\<lparr>message := None\<rparr>) = None" by simp
    show thesis by (rule that [OF s o m])
  qed
  show ?thesis
  proof (intro exI [of _ v'] exI [of _ a] conjI impI)
    show "upload_steps env v0 (v0\<lparr>message := None\<rparr>) = (v', Proceed a)" by (rule up)
    show "optional_id a = None" by (rule oid)
    show "message v' = None" by (rule msg)
  next
    assume n: "trim (fd_name (formData v0)) \<noteq> []"
    from create_after_upload [OF n up] oid
    show "\<exists>rest. calls (fst (handleUploadAndCreate env v0)) =
              calls v' @ [CreateSoftwareTemplate
                            \<lparr>ci_name = trim (fd_name (formData v0)),
                             ci_description = optional_string (fd_description (formData v0)),
                             ci_archiveFileId = None\<rparr>] @ rest"
      by simp
  next
    assume e: "editingTemplate v0 = Some t"
    from update_after_upload [OF e up] oid
    show "\<exists>rest. calls (fst (handleUploadAndUpdate env v0)) =
              calls v' @ [UpdateSoftwareTemplate (t_id t)
                            \<lparr>ui_name = optional_string (fd_name (formData v0)),
                             ui_description = optional_string (fd_description (formData v0)),
                             ui_archiveFileId = None\<rparr>] @ rest"
      by simp
  qed
qed

theorem archive_link_silently_omitted_witness:
  "(\<exists>v' a. upload_steps offline_env existing_view (existing_view\<lparr>message := None\<rparr>)
              = (v', Proceed a) \<and>
      optional_id a = None \<and> message v' = None \<and>
      (\<exists>rest. calls (fst (handleUploadAndCreate offline_env existing_view)) =
         calls v' @ [CreateSoftwareTemplate
                       \<lparr>ci_name = ''starter'', ci_description = None, ci_archiveFileId = None\<rparr>]
                  @ rest)) \<and>
   (\<exists>v' a. upload_steps zero_slot_env edit_view (edit_view\<lparr>message := None\<rparr>)
              = (v', Proceed a) \<and>
      optional_id a = None \<and> message v' = None \<and>
      (\<exists>rest. calls (fst (handleUploadAndUpdate zero_slot_env edit_view)) =
         calls v' @ [UpdateSoftwareTemplate 1
                       \<lparr>ui_name = Some ''alpha'', ui_description = Some ''first template'',
                        ui_archiveFileId = None\<rparr>]
                  @ rest))"
proof -
  have m: "uploadMode existing_view = Existing"
    by (simp add: existing_view_def)
  have p: "parseInt (trim (fd_archiveFileId (formData existing_view))) = Some 0"
    by (simp add: existing_view_def trim_def is_ws_def parseInt_examples)
  have hyp1:
    "(uploadMode existing_view = New \<and> selectedFile existing_view = Some empty_file \<and>
      calculateFileHash offline_env empty_file = Inr [] \<and>
      preUploadFile offline_env (preupload_input_of empty_file []) = Inr (Ok sample_slot) \<and>
      pr_fileId sample_slot = 0 \<and>
      uploadFileToOSS offline_env (pr_uploadUrl sample_slot) empty_file (pr_contentType sample_slot)
        = Inr (Ok ()))
     \<or> (uploadMode existing_view = Existing \<and>
         (\<forall>n. parseInt (trim (fd_archiveFileId (formData existing_view))) = Some n \<longrightarrow> n \<le> 0))"
    using m p by simp
  have f: "trim (fd_name (formData existing_view)) = ''starter''"
          "optional_string (fd_description (formData existing_view)) = None"
    by (simp_all add: existing_view_def optional_string_def trim_def is_ws_def)
  have hyp2:
    "(uploadMode edit_view = New \<and> selectedFile edit_view = Some empty_file \<and>
      calculateFileHash zero_slot_env empty_file
        = Inr ''e3b0c44298fc1c149afbf4c8996fb92427ae41e4649b934ca495991b7852b855'' \<and>
      preUploadFile zero_slot_env
        (preupload_input_of empty_file
           ''e3b0c44298fc1c149afbf4c8996fb92427ae41e4649b934ca495991b7852b855'')
        = Inr (Ok (sample_slot\<lparr>pr_fileId := 0\<rparr>)) \<and>
      pr_fileId (sample_slot\<lparr>pr_fileId := 0\<rparr>) = 0 \<and>
      uploadFileToOSS zero_slot_env (pr_uploadUrl (sample_slot\<lparr>pr_fileId := 0\<rparr>)) empty_file
        (pr_contentType (sample_slot\<lparr>pr_fileId := 0\<rparr>)) = Inr (Ok ()))
     \<or> (uploadMode edit_view = Existing \<and>
         (\<forall>n. parseInt (trim (fd_archiveFileId (formData edit_view))) = Some n \<longrightarrow> n \<le> 0))"
    by (simp add: edit_view_fields hash_sample preUploadFile_sample uploadFileToOSS_sample)
  have t: "t_id sample_template = 1" by (simp add: sample_template_def)
  from archive_link_silently_omitted [OF hyp1, of sample_template] f
  have a: "\<exists>v' a. upload_steps offline_env existing_view (existing_view\<lparr>message := None\<rparr>)
              = (v', Proceed a) \<and>
      optional_id a = None \<and> message v' = None \<and>
      (\<exists>rest. calls (fst (handleUploadAndCreate offline_env existing_view)) =
         calls v' @ [CreateSoftwareTemplate
                       \<lparr>ci_name = ''starter'', ci_description = None, ci_archiveFileId = None\<rparr>]
                  @ rest)"
    by auto
  from archive_link_silently_omitted [OF hyp2, of sample_template]
       edit_view_fields optional_string_examples t
  have b: "\<exists>v' a. upload_steps zero_slot_env edit_view (edit_view\<lparr>message := None\<rparr>)
              = (v', Proceed a) \<and>
      optional_id a = None \<and> message v' = None \<and>
      (\<exists>rest. calls (fst (handleUploadAndUpdate zero_slot_env edit_view)) =
         calls v' @ [UpdateSoftwareTemplate 1
                       \<lparr>ui_name = Some ''alpha'', ui_description = Some ''first template'',
                        ui_archiveFileId = None\<rparr>]
                  @ rest)"
    by auto
  from a b show ?thesis by (rule conjI)
qed

subsection \<open>The selection after a create\<close>

lemma loadVersionsForFile_selected:
  "selectedTemplateId (fst (loadVersionsForFile env fileId page pageSize v)) = selectedTemplateId v"
  by (simp add: loadVersionsForFile_def log_call_def Let_def split: sum.split api_result.split)

lemma selectTemplate_selected:
  "selectedTemplateId (fst (selectTemplate env v0 t v)) = map_option t_id t"
  by (simp add: selectTemplate_def clearVersions_def loadVersionsForFile_selected Let_def
      split: option.split)

lemma loadTemplates_selected:
  assumes "listSoftwareTemplates env (pg_page (pageInfo v0)) (pg_pageSize (pageInfo v0)) = Inr (Ok d)"
  shows "selectedTemplateId (fst (loadTemplates env v0 v))
           = map_option t_id (nextTemplate (selectedTemplateId v0) (pd_list d))"
  using assms by (simp add: loadTemplates_def selectTemplate_selected Let_def)

text \<open>
  After a successful create and reload, the selection is computed from the selection of
  the render and the reloaded list. The created template does not enter it.
\<close>

lemma create_selection:
  assumes "trim (fd_name (formData v0)) \<noteq> []"
    and "upload_steps env v0 (v0\<lparr>message := None\<rparr>) = (v', Proceed a)"
    and "createSoftwareTemplate env
           \<lparr>ci_name = trim (fd_name (formData v0)),
            ci_description = optional_string (fd_description (formData v0)),
            ci_archiveFileId = optional_id a\<rparr> = Inr (Ok created)"
    and "listSoftwareTemplates env (pg_page (pageInfo v0)) (pg_pageSize (pageInfo v0)) = Inr (Ok d)"
  shows "selectedTemplateId (fst (handleUploadAndCreate env v0))
           = map_option t_id (nextTemplate (selectedTemplateId v0) (pd_list d))"
  using assms by (simp add: handleUploadAndCreate_def loadTemplates_selected Let_def)

lemma createSoftwareTemplate_online:
  "createSoftwareTemplate online_env inp = Inr (Ok created_template)"
  by (simp add: createSoftwareTemplate_def createSoftwareTemplate_try_def try_catch_def
        getAuthToken_sample, simp add: online_env_def ok_response_def)

lemma listSoftwareTemplates_online:
  "listSoftwareTemplates online_env p ps =
     Inr (Ok \<lparr>pd_list = [sample_template, created_template],
              pd_page = \<lparr>pg_page = 1, pg_pageSize = 10, pg_total = 2\<rparr>\<rparr>)"
  by (simp add: listSoftwareTemplates_def listSoftwareTemplates_try_def try_catch_def
        getAuthToken_sample, simp add: online_env_def ok_response_def)

text \<open>
  Claim C2 says that after a successful \<^verbatim>\<open>createSoftwareTemplate\<close> the id of the created
  template is the selected one. The handler does not use the created template. Here
  template 1 is loaded and selected, the create succeeds and returns template 2, the
  reloaded list holds both, and the selection after the handler is still 1.
\<close>

theorem created_template_not_selected:
  "createSoftwareTemplate online_env
     \<lparr>ci_name = ''starter'', ci_description = None, ci_archiveFileId = Some 42\<rparr>
     = Inr (Ok created_template) \<and>
   t_id created_template = 2 \<and>
   selectedTemplateId (fst (handleUploadAndCreate online_env create_view)) = Some 1"
proof -
  have n: "trim (fd_name (formData create_view)) \<noteq> []"
    by (simp add: create_view_fields)
  note up = upload_steps_new
              [OF create_view_fields(1,2) hash_sample(3) preUploadFile_sample(4)
                  uploadFileToOSS_sample(4), of "create_view\<lparr>message := None\<rparr>"]
  have sel: "selectedTemplateId create_view = Some 1"
    by (simp add: create_view_def loaded_view_def)
  have nx: "nextTemplate (Some 1) [sample_template, created_template] = Some sample_template"
    by (simp add: nextTemplate_def truthy_int_def sample_template_def)
  from create_selection [OF n up createSoftwareTemplate_online listSoftwareTemplates_online]
  have "selectedTemplateId (fst (handleUploadAndCreate online_env create_view)) = Some 1"
    by (simp add: sel nx, simp add: sample_template_def)
  then show ?thesis
    by (simp add: createSoftwareTemplate_online created_template_def)
qed

subsection \<open>The update payloads\<close>

text \<open>
  The edit forms of the LLM provider and the LLM model send a field only when it differs
  from the loaded record. So does the agent form for the name and the agent type.
\<close>

lemma submitProvider_edit_diff:
  "submitProvider_edit form p = Some u \<Longrightarrow>
     pu_name u \<noteq> Some (lp_name p) \<and> pu_baseUrl u \<noteq> Some (lp_baseUrl p) \<and>
     pu_description u \<noteq> Some (lp_description p)"
  by (auto simp: submitProvider_edit_def split: if_splits)

lemma changed_differs: "changed next loaded \<noteq> Some loaded"
  by (simp add: changed_def)

lemma submitModel_edit_diff:
  "submitModel_edit parseFloat form m = Some u \<Longrightarrow>
     mu_providerId u \<noteq> Some (lm_providerId m) \<and> mu_modelName u \<noteq> Some (lm_modelName m) \<and>
     mu_modelType u \<noteq> Some (lm_modelType m) \<and>
     mu_maxInputTokens u \<noteq> Some (lm_maxInputTokens m) \<and>
     mu_maxOutputTokens u \<noteq> Some (lm_maxOutputTokens m) \<and>
     mu_supportStream u \<noteq> Some (lm_supportStream m) \<and>
     mu_supportJson u \<noteq> Some (lm_supportJson m) \<and>
     mu_priceInputPer1k u \<noteq> Some (lm_priceInputPer1k m) \<and>
     mu_priceOutputPer1k u \<noteq> Some (lm_priceOutputPer1k m)"
  by (auto simp: submitModel_edit_def Let_def changed_differs split: option.splits if_splits)

lemma submitAgent_edit_diff:
  "submitAgent_edit form a = Some u \<Longrightarrow>
     au_name u \<noteq> Some (ag_name a) \<and> au_agentType u \<noteq> Some (ag_agentType a)"
  by (auto simp: submitAgent_edit_def split: if_splits)

text \<open>
  The software template form sends the name and the description whenever they are not
  blank: with a clean name and description, saving the form as \<^verbatim>\<open>openEditModal\<close> filled
  it sends both back.
\<close>

lemma optional_string_clean: "trim s = s \<Longrightarrow> s \<noteq> [] \<Longrightarrow> optional_string s = Some s"
  by (simp add: optional_string_def)

lemma template_update_payload:
  assumes "trim (t_name t) = t_name t" and "t_name t \<noteq> []"
    and "trim (t_description t) = t_description t" and "t_description t \<noteq> []"
  shows "\<exists>rest. calls (fst (handleUploadAndUpdate env (openEditModal t v))) =
           calls v @ [UpdateSoftwareTemplate (t_id t)
                        \<lparr>ui_name = Some (t_name t), ui_description = Some (t_description t),
                         ui_archiveFileId = None\<rparr>] @ rest"
proof -
  let ?v = "openEditModal t v"
  have e: "editingTemplate ?v = Some t"
    by (simp add: openEditModal_def)
  have up: "upload_steps env ?v (?v\<lparr>message := None\<rparr>) = (?v\<lparr>message := None\<rparr>, Proceed None)"
    by (simp add: upload_steps_def openEditModal_def)
  have c: "calls (?v\<lparr>message := None\<rparr>) = calls v"
    by (simp add: openEditModal_def)
  have o: "optional_string (fd_name (formData ?v)) = Some (t_name t)"
          "optional_string (fd_description (formData ?v)) = Some (t_description t)"
    using assms by (simp_all add: openEditModal_def optional_string_clean)
  have i: "optional_id None = None"
    by (simp add: optional_id_def truthy_int_def)
  from update_after_upload [OF e up] c o i show ?thesis by simp
qed

lemma submitAgent_resends_description:
  "submitAgent_edit ((openEditAgent sample_agent)\<lparr>af_description := ''helper ''\<rparr>) sample_agent
     = Some \<lparr>au_name = None, au_description = Some (ag_description sample_agent),
             au_instruction = None, au_agentType = None\<rparr>"
  by (simp add: submitAgent_edit_def openEditAgent_def sample_agent_def trim_def is_ws_def)

text \<open>
  Claim C1 says that no update payload holds a field equal to the loaded record's. Two
  forms break it. The software template form: template 1 is loaded, its edit dialog is
  opened and saved with nothing changed, and the payload holds the loaded name and the
  loaded description. The agent form: a space typed after the loaded description makes
  the payload hold the loaded description.
\<close>

theorem template_update_resends_unchanged_fields:
  "(\<exists>rest. calls (fst (handleUploadAndUpdate online_env (openEditModal sample_template loaded_view)))
      = [UpdateSoftwareTemplate 1
           \<lparr>ui_name = Some (t_name sample_template),
            ui_description = Some (t_description sample_template),
            ui_archiveFileId = None\<rparr>] @ rest) \<and>
   submitAgent_edit ((openEditAgent sample_agent)\<lparr>af_description := ''helper ''\<rparr>) sample_agent
     = Some \<lparr>au_name = None, au_description = Some (ag_description sample_agent),
             au_instruction = None, au_agentType = None\<rparr>"
proof -
  have t: "trim (t_name sample_template) = t_name sample_template" "t_name sample_template \<noteq> []"
          "trim (t_description sample_template) = t_description sample_template"
          "t_description sample_template \<noteq> []" "t_id sample_template = 1"
    by (simp_all add: sample_template_def trim_def is_ws_def)
  from template_update_payload [OF t(1,2,3,4), of online_env loaded_view]
       loaded_view_fields t(5) submitAgent_resends_description
  show ?thesis by simp
qed

end
